theory Spec2Isabelle
  imports Main "HOL-Library.Multiset"
begin

section \<open>Storage schema\<close>

text \<open>
  The five tables of \<^verbatim>\<open>main.py\<close>, one record per ORM class. Integer columns are Python
  integers (\<open>int\<close>); a \<^verbatim>\<open>TIMESTAMP\<close> is an integer time stamp. Only \<^verbatim>\<open>remarks\<close> is read as a
  nullable column, since the handlers write it both ways; the other columns are taken
  to hold values. A table is the list of its rows in the order in which an unordered
  \<^verbatim>\<open>SELECT\<close> returns them, so that \<^verbatim>\<open>.first()\<close> is the first match of the list.
\<close>

type_synonym timestamp = int

record User =
  id :: int
  name :: string
  company_name :: string

record UserBalance =
  id :: int
  user_id :: int
  current_points :: int
  scheduled_points :: int
  expiring_points :: int
  updated_at :: timestamp

record PointHistory =
  id :: int
  user_id :: int
  date :: timestamp
  description :: string
  points :: int
  remarks :: "string option"

record RedeemableItem =
  id :: int
  name :: string
  points_required :: int

record RedemptionHistory =
  id :: int
  user_id :: int
  item_id :: int
  date :: timestamp
  points_spent :: int

record database =
  users :: "User list"
  user_balance :: "UserBalance list"
  point_history :: "PointHistory list"
  redeemable_items :: "RedeemableItem list"
  redemption_history :: "RedemptionHistory list"

section \<open>Requests, responses and errors\<close>

record UsePointsRequest =
  user_id :: int
  item_id :: int
  points :: int

text \<open>A handler returns a Python dict; its values are integers, strings or booleans.\<close>

datatype pyval = PyInt int | PyStr string | PyBool bool

type_synonym response = "(string \<times> pyval) list"

text \<open>
  \<^verbatim>\<open>HTTPException(status_code, detail)\<close> is raised by the handlers; \<open>SQLAlchemyError\<close> is
  what a failing statement of the storage layer raises through \<^verbatim>\<open>db.commit()\<close>. The
  framework answers an exception that is not an \<^verbatim>\<open>HTTPException\<close> with status 500.
\<close>

datatype error = HTTPException int string | SQLAlchemyError

fun status_code :: "error \<Rightarrow> int" where
  "status_code (HTTPException code detail) = code"
| "status_code SQLAlchemyError = 500"

text \<open>
  The string literals of the source that are not ASCII, as their UTF-8 bytes:
  the suffix of the history description, the prefix of the remarks, and the message
  of a completed exchange.
\<close>

definition lit_exchanged :: string where
  "lit_exchanged =
     [CHR 0xE3, CHR 0x81, CHR 0xA8, CHR 0xE4, CHR 0xBA, CHR 0xA4, CHR 0xE6, CHR 0x8F, CHR 0x9B]"

definition lit_item_exchange :: string where
  "lit_item_exchange =
     [CHR 0xE3, CHR 0x82, CHR 0xA2, CHR 0xE3, CHR 0x82, CHR 0xA4, CHR 0xE3, CHR 0x83, CHR 0x86,
      CHR 0xE3, CHR 0x83, CHR 0xA0, CHR 0xE4, CHR 0xBA, CHR 0xA4, CHR 0xE6, CHR 0x8F, CHR 0x9B,
      CHR 0x3A, CHR 0x20]"

definition lit_completed :: string where
  "lit_completed =
     [CHR 0xE3, CHR 0x83, CHR 0x9D, CHR 0xE3, CHR 0x82, CHR 0xA4, CHR 0xE3, CHR 0x83, CHR 0xB3,
      CHR 0xE3, CHR 0x83, CHR 0x88, CHR 0xE4, CHR 0xBA, CHR 0xA4, CHR 0xE6, CHR 0x8F, CHR 0x9B,
      CHR 0xE3, CHR 0x81, CHR 0x8C, CHR 0xE5, CHR 0xAE, CHR 0x8C, CHR 0xE4, CHR 0xBA, CHR 0x86,
      CHR 0xE3, CHR 0x81, CHR 0x97, CHR 0xE3, CHR 0x81, CHR 0xBE, CHR 0xE3, CHR 0x81, CHR 0x97,
      CHR 0xE3, CHR 0x81, CHR 0x9F]"

section \<open>The session: unit of work, flush, commit, close\<close>

text \<open>
  \<^verbatim>\<open>sessionmaker(autocommit=False, autoflush=False)\<close>: what a handler changes or adds stays
  in the session's unit of work until \<^verbatim>\<open>db.commit()\<close>. The commit sends the pending
  statements one by one inside a transaction and then \<^verbatim>\<open>COMMIT\<close>; the rows become the
  stored ones only there. \<open>storage\<close> is what is persisted, \<open>transaction\<close> the working copy
  of a transaction in flight.
\<close>

datatype pending =
    Update_current_points int int
  | Add_RedemptionHistory int int int
  | Add_PointHistory int "timestamp option" string int "string option"

record Session =
  storage :: database
  transaction :: "database option"
  unit_of_work :: "pending list"

text \<open>The two clocks the source reads: \<^verbatim>\<open>datetime.utcnow\<close> (column defaults) and \<^verbatim>\<open>datetime.now()\<close>.\<close>

record clock =
  utcnow :: timestamp
  now :: timestamp

definition SessionLocal :: "database \<Rightarrow> Session" where
  "SessionLocal d = \<lparr>storage = d, transaction = None, unit_of_work = []\<rparr>"

definition view :: "Session \<Rightarrow> database" where
  "view s = (case transaction s of None \<Rightarrow> storage s | Some t \<Rightarrow> t)"

text \<open>\<^verbatim>\<open>query.filter(p).first()\<close>: the first row that satisfies \<open>p\<close>, or \<^verbatim>\<open>None\<close>.\<close>

definition first :: "('a \<Rightarrow> bool) \<Rightarrow> 'a list \<Rightarrow> 'a option" where
  "first p rows = find p rows"

text \<open>An \<^verbatim>\<open>AUTO_INCREMENT\<close> primary key: one more than the largest key of the table.\<close>

definition next_id :: "int list \<Rightarrow> int" where
  "next_id ids = fold max ids 0 + 1"

text \<open>
  One statement of a flush. The \<^verbatim>\<open>UPDATE\<close> addresses the row by its primary key and
  fires \<^verbatim>\<open>onupdate=datetime.utcnow\<close>; an \<^verbatim>\<open>INSERT\<close> fills the key and, where the handler
  gave no date, the column default \<^verbatim>\<open>datetime.utcnow\<close>.
\<close>

fun execute :: "clock \<Rightarrow> pending \<Rightarrow> database \<Rightarrow> database" where
  "execute clk (Update_current_points pk v) d =
     d\<lparr>user_balance :=
         map (\<lambda>b. if UserBalance.id b = pk
                  then b\<lparr>current_points := v, updated_at := utcnow clk\<rparr> else b)
           (user_balance d)\<rparr>"
| "execute clk (Add_RedemptionHistory u i p) d =
     d\<lparr>redemption_history := redemption_history d @
         [\<lparr>RedemptionHistory.id = next_id (map RedemptionHistory.id (redemption_history d)),
           RedemptionHistory.user_id = u, RedemptionHistory.item_id = i,
           RedemptionHistory.date = utcnow clk, points_spent = p\<rparr>]\<rparr>"
| "execute clk (Add_PointHistory u t descr p r) d =
     d\<lparr>point_history := point_history d @
         [\<lparr>PointHistory.id = next_id (map PointHistory.id (point_history d)),
           PointHistory.user_id = u,
           PointHistory.date = (case t of None \<Rightarrow> utcnow clk | Some t' \<Rightarrow> t'),
           description = descr, PointHistory.points = p, remarks = r\<rparr>]\<rparr>"

text \<open>
  The flush runs the pending statements in order on the transaction's copy. \<open>fault\<close>
  names the statement of the request at which the storage layer fails, counted from 0,
  the \<^verbatim>\<open>COMMIT\<close> coming after the last pending statement; \<open>None\<close> is a run without a
  failure. A flush that fails returns the copy as the failing statement found it.
\<close>

fun flush :: "clock \<Rightarrow> nat option \<Rightarrow> nat \<Rightarrow> pending list \<Rightarrow> database \<Rightarrow> bool \<times> database" where
  "flush clk fault k [] d = (True, d)"
| "flush clk fault k (w # ws) d =
     (if fault = Some k then (False, d) else flush clk fault (Suc k) ws (execute clk w d))"

definition rollback :: "Session \<Rightarrow> Session" where
  "rollback s = s\<lparr>transaction := None, unit_of_work := []\<rparr>"

definition commit :: "clock \<Rightarrow> nat option \<Rightarrow> Session \<Rightarrow> error option \<times> Session" where
  "commit clk fault s =
     (case flush clk fault 0 (unit_of_work s) (view s) of
        (False, t) \<Rightarrow> (Some SQLAlchemyError, rollback (s\<lparr>transaction := Some t\<rparr>))
      | (True, t) \<Rightarrow>
          if fault = Some (length (unit_of_work s))
          then (Some SQLAlchemyError, rollback (s\<lparr>transaction := Some t\<rparr>))
          else (None, \<lparr>storage = t, transaction = None, unit_of_work = []\<rparr>))"

definition close :: "Session \<Rightarrow> database" where
  "close s = storage (rollback s)"

text \<open>
  \<^verbatim>\<open>get_db\<close>: a session per request, closed on every way out of the handler
  (\<^verbatim>\<open>try: yield db finally: db.close()\<close>). What is left is the persisted storage.
\<close>

definition get_db :: "(Session \<Rightarrow> 'r \<times> Session) \<Rightarrow> database \<Rightarrow> 'r \<times> database" where
  "get_db handler d = (case handler (SessionLocal d) of (r, s) \<Rightarrow> (r, close s))"

text \<open>
  Assigning a mapped attribute marks the row as changed; a value equal to the loaded
  one is no change and sends no \<^verbatim>\<open>UPDATE\<close>. \<^verbatim>\<open>db.add\<close> registers a new row.
\<close>

definition set_current_points :: "UserBalance \<Rightarrow> int \<Rightarrow> Session \<Rightarrow> Session" where
  "set_current_points balance v s =
     (if v = current_points balance then s
      else s\<lparr>unit_of_work := unit_of_work s @ [Update_current_points (UserBalance.id balance) v]\<rparr>)"

definition add :: "pending \<Rightarrow> Session \<Rightarrow> Session" where
  "add w s = s\<lparr>unit_of_work := unit_of_work s @ [w]\<rparr>"

section \<open>Read accessors\<close>

text \<open>
  The parameters \<^verbatim>\<open>user_id\<close> and \<^verbatim>\<open>item_id\<close> of the handlers are written \<open>uid\<close> and \<open>iid\<close>:
  the source's names are the column selectors here.
\<close>

text \<open>\<^verbatim>\<open>get_user_balance\<close>: the dict literal of the source, three keys.\<close>

definition get_user_balance :: "int \<Rightarrow> Session \<Rightarrow> (error + response) \<times> Session" where
  "get_user_balance uid db =
     (case first (\<lambda>b. UserBalance.user_id b = uid) (user_balance (view db)) of
        None \<Rightarrow> (Inl (HTTPException 404 ''User not found''), db)
      | Some balance \<Rightarrow>
          (Inr [(''user_id'', PyInt uid),
                (''current_points'', PyInt (current_points balance)),
                (''expiring_points'', PyInt (expiring_points balance))], db))"

text \<open>
  \<^verbatim>\<open>order_by(desc(PointHistory.date))\<close>: rows by decreasing date; rows of equal date keep
  their order.
\<close>

definition order_by_desc_date :: "PointHistory list \<Rightarrow> PointHistory list" where
  "order_by_desc_date rows = sort_key (\<lambda>h. - PointHistory.date h) rows"

text \<open>
  \<^verbatim>\<open>get_point_history\<close>. \<^verbatim>\<open>if limit:\<close> is false for \<^verbatim>\<open>None\<close> and for 0. A negative limit
  reaches \<^verbatim>\<open>query.limit\<close>, and the \<^verbatim>\<open>LIMIT\<close> clause it makes is refused by the storage layer.
\<close>

definition get_point_history ::
  "int \<Rightarrow> int option \<Rightarrow> string option \<Rightarrow> Session \<Rightarrow> (error + PointHistory list) \<times> Session" where
  "get_point_history uid limit filter_type db =
     (let query = filter (\<lambda>h. PointHistory.user_id h = uid) (point_history (view db));
          query1 = (if filter_type = Some ''earned''
                    then filter (\<lambda>h. PointHistory.points h > 0) query
                    else if filter_type = Some ''used''
                    then filter (\<lambda>h. PointHistory.points h < 0) query
                    else query);
          query2 = order_by_desc_date query1
      in case limit of
           None \<Rightarrow> (Inr query2, db)
         | Some n \<Rightarrow>
             if n = 0 then (Inr query2, db)
             else if n < 0 then (Inl SQLAlchemyError, db)
             else (Inr (take (nat n) query2), db))"

text \<open>
  The route's declaration \<^verbatim>\<open>limit: Optional[int] = Query(5)\<close>: a request without the
  parameter runs the handler with 5; \<^verbatim>\<open>filter_type\<close> defaults to \<^verbatim>\<open>None\<close>.
\<close>

definition Query :: "'a \<Rightarrow> 'a option \<Rightarrow> 'a" where
  "Query dflt param = (case param of None \<Rightarrow> dflt | Some v \<Rightarrow> v)"

definition get_point_history_route ::
  "int \<Rightarrow> int option option \<Rightarrow> string option \<Rightarrow> database \<Rightarrow> (error + PointHistory list) \<times> database" where
  "get_point_history_route uid limit_param filter_type =
     get_db (get_point_history uid (Query (Some 5) limit_param) filter_type)"

section \<open>Redemption\<close>

definition redeem_points_legacy ::
  "clock \<Rightarrow> nat option \<Rightarrow> int \<Rightarrow> int \<Rightarrow> Session \<Rightarrow> (error + response) \<times> Session" where
  "redeem_points_legacy clk fault uid iid db =
     (case first (\<lambda>i. RedeemableItem.id i = iid) (redeemable_items (view db)) of
        None \<Rightarrow> (Inl (HTTPException 404 ''Item not found''), db)
      | Some item \<Rightarrow>
     (case first (\<lambda>b. UserBalance.user_id b = uid) (user_balance (view db)) of
        None \<Rightarrow> (Inl (HTTPException 404 ''User not found''), db)
      | Some balance \<Rightarrow>
          if current_points balance < points_required item
          then (Inl (HTTPException 400 ''Not enough points''), db)
          else
            let new_points = current_points balance - points_required item;
                db1 = set_current_points balance new_points db;
                db2 = add (Add_RedemptionHistory uid iid (points_required item)) db1;
                db3 = add (Add_PointHistory uid None (RedeemableItem.name item @ lit_exchanged)
                             (- points_required item) None) db2
            in case commit clk fault db3 of
                 (Some e, db4) \<Rightarrow> (Inl e, db4)
               | (None, db4) \<Rightarrow>
                   (Inr [(''message'', PyStr lit_completed),
                         (''new_balance'', PyInt new_points)], db4)))"

definition use_points ::
  "clock \<Rightarrow> nat option \<Rightarrow> UsePointsRequest \<Rightarrow> Session \<Rightarrow> (error + response) \<times> Session" where
  "use_points clk fault request db =
     (case first (\<lambda>i. RedeemableItem.id i = UsePointsRequest.item_id request)
             (redeemable_items (view db)) of
        None \<Rightarrow> (Inl (HTTPException 404 ''Item not found''), db)
      | Some item \<Rightarrow>
     (case first (\<lambda>b. UserBalance.user_id b = UsePointsRequest.user_id request)
             (user_balance (view db)) of
        None \<Rightarrow> (Inl (HTTPException 404 ''User not found''), db)
      | Some balance \<Rightarrow>
          if current_points balance < UsePointsRequest.points request
          then (Inl (HTTPException 400 ''Not enough points''), db)
          else
            let new_points = current_points balance - UsePointsRequest.points request;
                db1 = set_current_points balance new_points db;
                db2 = add (Add_RedemptionHistory (UsePointsRequest.user_id request)
                             (UsePointsRequest.item_id request)
                             (UsePointsRequest.points request)) db1;
                db3 = add (Add_PointHistory (UsePointsRequest.user_id request) (Some (now clk))
                             (RedeemableItem.name item @ lit_exchanged)
                             (- UsePointsRequest.points request)
                             (Some (lit_item_exchange @ RedeemableItem.name item))) db2
            in case commit clk fault db3 of
                 (Some e, db4) \<Rightarrow> (Inl e, db4)
               | (None, db4) \<Rightarrow>
                   (Inr [(''success'', PyBool True),
                         (''message'', PyStr lit_completed),
                         (''remaining_points'', PyInt new_points)], db4)))"

section \<open>Vocabulary of the statements\<close>

text \<open>
  A fault hits a commit of \<open>n\<close> pending statements when it names one of them or the
  \<^verbatim>\<open>COMMIT\<close> that follows them.
\<close>

definition fault_hits :: "nat option \<Rightarrow> nat \<Rightarrow> bool" where
  "fault_hits fault n = (case fault of None \<Rightarrow> False | Some k \<Rightarrow> k \<le> n)"

abbreviation item_row :: "int \<Rightarrow> database \<Rightarrow> RedeemableItem option" where
  "item_row iid d \<equiv> first (\<lambda>i. RedeemableItem.id i = iid) (redeemable_items d)"

abbreviation balance_row :: "int \<Rightarrow> database \<Rightarrow> UserBalance option" where
  "balance_row uid d \<equiv> first (\<lambda>b. UserBalance.user_id b = uid) (user_balance d)"

text \<open>
  The statements a redemption has pending when it reaches \<^verbatim>\<open>db.commit()\<close>: the \<^verbatim>\<open>UPDATE\<close> of
  the balance row (none when the amount is 0) and the two \<^verbatim>\<open>INSERT\<close>s.
\<close>

definition use_points_writes :: "UserBalance \<Rightarrow> RedeemableItem \<Rightarrow> UsePointsRequest \<Rightarrow> clock \<Rightarrow> pending list" where
  "use_points_writes balance item request clk =
     (if UsePointsRequest.points request = 0 then []
      else [Update_current_points (UserBalance.id balance)
              (current_points balance - UsePointsRequest.points request)]) @
     [Add_RedemptionHistory (UsePointsRequest.user_id request) (UsePointsRequest.item_id request)
        (UsePointsRequest.points request),
      Add_PointHistory (UsePointsRequest.user_id request) (Some (now clk))
        (RedeemableItem.name item @ lit_exchanged) (- UsePointsRequest.points request)
        (Some (lit_item_exchange @ RedeemableItem.name item))]"

definition redeem_points_legacy_writes :: "UserBalance \<Rightarrow> RedeemableItem \<Rightarrow> int \<Rightarrow> int \<Rightarrow> pending list" where
  "redeem_points_legacy_writes balance item uid iid =
     (if points_required item = 0 then []
      else [Update_current_points (UserBalance.id balance)
              (current_points balance - points_required item)]) @
     [Add_RedemptionHistory uid iid (points_required item),
      Add_PointHistory uid None (RedeemableItem.name item @ lit_exchanged)
        (- points_required item) None]"

text \<open>
  A listing of a user's history entries that satisfy \<open>p\<close>: exactly those entries, each as
  often as it is stored, by decreasing date. \<open>limited\<close> is the truncation a limit asks for.
\<close>

definition listing :: "int \<Rightarrow> (PointHistory \<Rightarrow> bool) \<Rightarrow> database \<Rightarrow> PointHistory list \<Rightarrow> bool" where
  "listing uid p d rows \<longleftrightarrow>
     sorted_wrt (\<lambda>a b. PointHistory.date b \<le> PointHistory.date a) rows
     \<and> mset rows = mset (filter (\<lambda>h. PointHistory.user_id h = uid \<and> p h) (point_history d))"

definition limited :: "int option \<Rightarrow> 'a list \<Rightarrow> 'a list" where
  "limited limit rows =
     (case limit of None \<Rightarrow> rows | Some n \<Rightarrow> if n = 0 then rows else take (nat n) rows)"

section \<open>A sample store\<close>

text \<open>
  One user with 100 points (and 7 scheduled ones), an item that costs 30 and one that
  costs 500, and a history of two earnings and two spendings.
\<close>

definition example_db :: database where
  "example_db =
     \<lparr>users = [\<lparr>User.id = 1, User.name = ''Aoi'', company_name = ''Acme''\<rparr>],
      user_balance =
        [\<lparr>UserBalance.id = 1, UserBalance.user_id = 1, current_points = 100,
          scheduled_points = 7, expiring_points = 10, updated_at = 0\<rparr>],
      point_history =
        [\<lparr>PointHistory.id = 1, PointHistory.user_id = 1, PointHistory.date = 1,
          description = ''bonus'', PointHistory.points = 10, remarks = None\<rparr>,
         \<lparr>PointHistory.id = 2, PointHistory.user_id = 1, PointHistory.date = 2,
          description = ''tea'', PointHistory.points = - 5, remarks = None\<rparr>,
         \<lparr>PointHistory.id = 3, PointHistory.user_id = 1, PointHistory.date = 3,
          description = ''bonus'', PointHistory.points = 20, remarks = None\<rparr>,
         \<lparr>PointHistory.id = 4, PointHistory.user_id = 1, PointHistory.date = 4,
          description = ''tea'', PointHistory.points = - 3, remarks = None\<rparr>],
      redeemable_items =
        [\<lparr>RedeemableItem.id = 1, RedeemableItem.name = ''Mug'', points_required = 30\<rparr>,
         \<lparr>RedeemableItem.id = 2, RedeemableItem.name = ''Bike'', points_required = 500\<rparr>],
      redemption_history = []\<rparr>"

abbreviation example_balance :: UserBalance where
  "example_balance \<equiv> \<lparr>UserBalance.id = 1, UserBalance.user_id = 1, current_points = 100,
          scheduled_points = 7, expiring_points = 10, updated_at = 0\<rparr>"

abbreviation example_request :: UsePointsRequest where
  "example_request \<equiv> \<lparr>UsePointsRequest.user_id = 1, UsePointsRequest.item_id = 1,
        UsePointsRequest.points = 30\<rparr>"

definition example_clock :: clock where
  "example_clock = \<lparr>utcnow = 1000, now = 1009\<rparr>"

text \<open>The two listings of the sample store, and a store with ten history entries.\<close>

definition example_entry :: "int \<Rightarrow> PointHistory" where
  "example_entry k =
     \<lparr>PointHistory.id = k, PointHistory.user_id = 1, PointHistory.date = (k * 7) mod 11,
      description = ''visit'', PointHistory.points = k, remarks = None\<rparr>"

definition example_history :: database where
  "example_history =
     \<lparr>users = [], user_balance = [],
      point_history = map example_entry [1, 2, 3, 4, 5, 6, 7, 8, 9, 10],
      redeemable_items = [], redemption_history = []\<rparr>"

abbreviation example_earned :: "PointHistory list" where
  "example_earned \<equiv>
     [\<lparr>PointHistory.id = 3, PointHistory.user_id = 1, PointHistory.date = 3,
       description = ''bonus'', PointHistory.points = 20, remarks = None\<rparr>,
      \<lparr>PointHistory.id = 1, PointHistory.user_id = 1, PointHistory.date = 1,
       description = ''bonus'', PointHistory.points = 10, remarks = None\<rparr>]"

abbreviation example_used :: "PointHistory list" where
  "example_used \<equiv>
     [\<lparr>PointHistory.id = 4, PointHistory.user_id = 1, PointHistory.date = 4,
       description = ''tea'', PointHistory.points = - 3, remarks = None\<rparr>,
      \<lparr>PointHistory.id = 2, PointHistory.user_id = 1, PointHistory.date = 2,
       description = ''tea'', PointHistory.points = - 5, remarks = None\<rparr>]"


section \<open>The session: flush and commit\<close>

lemma find_map_same:
  assumes "\<And>x. P (f x) = P x"
  shows "find P (map f xs) = map_option f (find P xs)"
  using assms by (induction xs) auto

lemma first_after_update:
  assumes "first (\<lambda>b. UserBalance.user_id b = uid) (user_balance d) = Some balance"
  shows "first (\<lambda>b. UserBalance.user_id b = uid)
           (user_balance (execute clk (Update_current_points (UserBalance.id balance) v) d))
         = Some (balance\<lparr>current_points := v, updated_at := utcnow clk\<rparr>)"
proof -
  let ?f = "\<lambda>b. if UserBalance.id b = UserBalance.id balance
                  then b\<lparr>current_points := v, updated_at := utcnow clk\<rparr> else b"
  have "find (\<lambda>b. UserBalance.user_id b = uid) (map ?f (user_balance d))
        = map_option ?f (find (\<lambda>b. UserBalance.user_id b = uid) (user_balance d))"
    by (rule find_map_same) simp
  with assms show ?thesis by (simp add: first_def)
qed

lemma flush_no_fault: "flush clk None k ws d = (True, fold (execute clk) ws d)"
  by (induction ws arbitrary: k d) auto

lemma flush_fault_inside:
  "j \<le> k \<Longrightarrow> k < j + length ws \<Longrightarrow> fst (flush clk (Some k) j ws d) = False"
proof (induction ws arbitrary: j d)
  case Nil
  then show ?case by simp
next
  case (Cons w ws)
  show ?case
  proof (cases "k = j")
    case True
    then show ?thesis by simp
  next
    case False
    with Cons.prems have "Suc j \<le> k" "k < Suc j + length ws" by auto
    from Cons.IH[OF this] False show ?thesis by simp
  qed
qed

lemma commit_no_fault:
  "commit clk None s =
     (None, \<lparr>storage = fold (execute clk) (unit_of_work s) (view s), transaction = None,
             unit_of_work = []\<rparr>)"
  by (simp add: commit_def flush_no_fault)

lemma commit_fault:
  assumes "k \<le> length (unit_of_work s)"
  shows "fst (commit clk (Some k) s) = Some SQLAlchemyError"
proof (cases "k = length (unit_of_work s)")
  case True
  then show ?thesis by (simp add: commit_def split: prod.splits bool.splits)
next
  case False
  with assms have "fst (flush clk (Some k) 0 (unit_of_work s) (view s)) = False"
    by (intro flush_fault_inside) auto
  then show ?thesis by (auto simp: commit_def split: prod.splits bool.splits)
qed

lemma commit_error_keeps_storage:
  "fst (commit clk fault s) = Some e \<Longrightarrow> close (snd (commit clk fault s)) = storage s"
  by (auto simp: commit_def close_def rollback_def split: prod.splits bool.splits if_splits)


lemma flush_fault_beyond:
  "j + length ws \<le> k \<Longrightarrow> flush clk (Some k) j ws d = (True, fold (execute clk) ws d)"
  by (induction ws arbitrary: j d) auto

lemma commit_result:
  "fst (commit clk fault s) =
     (if fault_hits fault (length (unit_of_work s)) then Some SQLAlchemyError else None)"
proof (cases fault)
  case None
  then show ?thesis by (simp add: commit_no_fault fault_hits_def)
next
  case (Some k)
  show ?thesis
  proof (cases "k \<le> length (unit_of_work s)")
    case True
    with Some show ?thesis by (simp add: commit_fault fault_hits_def)
  next
    case False
    then have "flush clk (Some k) 0 (unit_of_work s) (view s)
               = (True, fold (execute clk) (unit_of_work s) (view s))"
      by (intro flush_fault_beyond) simp
    with Some False show ?thesis by (simp add: commit_def fault_hits_def)
  qed
qed

lemma commit_close:
  "close (snd (commit clk fault s)) =
     (if fault_hits fault (length (unit_of_work s)) then storage s
      else fold (execute clk) (unit_of_work s) (view s))"
proof (cases fault)
  case None
  then show ?thesis by (simp add: commit_no_fault fault_hits_def close_def rollback_def)
next
  case (Some k)
  show ?thesis
  proof (cases "k \<le> length (unit_of_work s)")
    case True
    then have "fst (commit clk (Some k) s) = Some SQLAlchemyError" by (rule commit_fault)
    from commit_error_keeps_storage[OF this] Some True show ?thesis
      by (simp add: fault_hits_def)
  next
    case False
    then have "flush clk (Some k) 0 (unit_of_work s) (view s)
               = (True, fold (execute clk) (unit_of_work s) (view s))"
      by (intro flush_fault_beyond) simp
    with Some False show ?thesis
      by (simp add: commit_def fault_hits_def close_def rollback_def)
  qed
qed

lemma use_points_run:
  assumes "item_row (UsePointsRequest.item_id request) d = Some item"
    and "balance_row (UsePointsRequest.user_id request) d = Some balance"
    and "UsePointsRequest.points request \<le> current_points balance"
  shows "get_db (use_points clk fault request) d =
     (if fault_hits fault (length (use_points_writes balance item request clk))
      then (Inl SQLAlchemyError, d)
      else (Inr [(''success'', PyBool True), (''message'', PyStr lit_completed),
                 (''remaining_points'',
                   PyInt (current_points balance - UsePointsRequest.points request))],
            fold (execute clk) (use_points_writes balance item request clk) d))"
proof -
  define s where "s = add (Add_PointHistory (UsePointsRequest.user_id request) (Some (now clk))
                             (RedeemableItem.name item @ lit_exchanged)
                             (- UsePointsRequest.points request)
                             (Some (lit_item_exchange @ RedeemableItem.name item)))
          (add (Add_RedemptionHistory (UsePointsRequest.user_id request)
                             (UsePointsRequest.item_id request)
                             (UsePointsRequest.points request))
            (set_current_points balance (current_points balance - UsePointsRequest.points request) (SessionLocal d)))"
  have uow: "unit_of_work s = use_points_writes balance item request clk"
    by (simp add: s_def add_def set_current_points_def SessionLocal_def use_points_writes_def)
  have st: "storage s = d" "view s = d"
    by (simp_all add: s_def add_def set_current_points_def SessionLocal_def view_def)
  have run: "use_points clk fault request (SessionLocal d) =
      (case commit clk fault s of
         (Some e, db4) \<Rightarrow> (Inl e, db4)
       | (None, db4) \<Rightarrow>
           (Inr [(''success'', PyBool True), (''message'', PyStr lit_completed),
                 (''remaining_points'',
                   PyInt (current_points balance - UsePointsRequest.points request))], db4))"
    using assms by (simp add: use_points_def s_def view_def SessionLocal_def Let_def)
  obtain e s' where c: "commit clk fault s = (e, s')" by (cases "commit clk fault s")
  from commit_result[of clk fault s] commit_close[of clk fault s] c uow st
  have e: "e = (if fault_hits fault (length (use_points_writes balance item request clk))
                then Some SQLAlchemyError else None)"
    and s': "close s' = (if fault_hits fault (length (use_points_writes balance item request clk))
                then d else fold (execute clk) (use_points_writes balance item request clk) d)"
    by simp_all
  show ?thesis
    by (simp add: get_db_def run c e s')
qed


lemma redeem_points_legacy_run:
  assumes "item_row iid d = Some item"
    and "balance_row uid d = Some balance"
    and "points_required item \<le> current_points balance"
  shows "get_db (redeem_points_legacy clk fault uid iid) d =
     (if fault_hits fault (length (redeem_points_legacy_writes balance item uid iid))
      then (Inl SQLAlchemyError, d)
      else (Inr [(''message'', PyStr lit_completed),
                 (''new_balance'', PyInt (current_points balance - points_required item))],
            fold (execute clk) (redeem_points_legacy_writes balance item uid iid) d))"
proof -
  define s where "s = add (Add_PointHistory uid None (RedeemableItem.name item @ lit_exchanged)
                             (- points_required item) None)
          (add (Add_RedemptionHistory uid iid (points_required item))
            (set_current_points balance (current_points balance - points_required item) (SessionLocal d)))"
  have uow: "unit_of_work s = redeem_points_legacy_writes balance item uid iid"
    by (simp add: s_def add_def set_current_points_def SessionLocal_def redeem_points_legacy_writes_def)
  have st: "storage s = d" "view s = d"
    by (simp_all add: s_def add_def set_current_points_def SessionLocal_def view_def)
  have run: "redeem_points_legacy clk fault uid iid (SessionLocal d) =
      (case commit clk fault s of
         (Some e, db4) \<Rightarrow> (Inl e, db4)
       | (None, db4) \<Rightarrow>
           (Inr [(''message'', PyStr lit_completed),
                 (''new_balance'', PyInt (current_points balance - points_required item))], db4))"
    using assms by (simp add: redeem_points_legacy_def s_def view_def SessionLocal_def Let_def)
  obtain e s' where c: "commit clk fault s = (e, s')" by (cases "commit clk fault s")
  from commit_result[of clk fault s] commit_close[of clk fault s] c uow st
  have e: "e = (if fault_hits fault (length (redeem_points_legacy_writes balance item uid iid))
                then Some SQLAlchemyError else None)"
    and s': "close s' = (if fault_hits fault (length (redeem_points_legacy_writes balance item uid iid))
                then d else fold (execute clk) (redeem_points_legacy_writes balance item uid iid) d)"
    by simp_all
  show ?thesis
    by (simp add: get_db_def run c e s')
qed

text \<open>What the three statements leave in the tables.\<close>

lemma debit_tables:
  fixes clk :: clock and amount iid :: int and t :: "timestamp option" and descr :: string
    and r :: "string option"
  assumes "balance_row uid d = Some balance"
  defines "d' \<equiv> fold (execute clk)
      ((if amount = 0 then [] else [Update_current_points (UserBalance.id balance) (current_points balance - amount)]) @
       [Add_RedemptionHistory uid iid amount, Add_PointHistory uid t descr (- amount) r]) d"
  shows "map_option current_points (balance_row uid d') = Some (current_points balance - amount)"
    and "redemption_history d' = redemption_history d @
           [\<lparr>RedemptionHistory.id = next_id (map RedemptionHistory.id (redemption_history d)),
             RedemptionHistory.user_id = uid, RedemptionHistory.item_id = iid,
             RedemptionHistory.date = utcnow clk, points_spent = amount\<rparr>]"
    and "point_history d' = point_history d @
           [\<lparr>PointHistory.id = next_id (map PointHistory.id (point_history d)),
             PointHistory.user_id = uid,
             PointHistory.date = (case t of None \<Rightarrow> utcnow clk | Some t' \<Rightarrow> t'),
             description = descr, PointHistory.points = - amount, remarks = r\<rparr>]"
    and "users d' = users d" and "redeemable_items d' = redeemable_items d"
proof -
  show "map_option current_points (balance_row uid d') = Some (current_points balance - amount)"
  proof (cases "amount = 0")
    case True
    with assms(1) show ?thesis by (simp add: d'_def)
  next
    case False
    with first_after_update[OF assms(1), of clk "current_points balance - amount"]
    show ?thesis by (simp add: d'_def)
  qed
qed (simp_all add: d'_def)


text \<open>Every way through a redemption, seen from outside the session.\<close>

lemma use_points_route:
  "get_db (use_points clk fault request) d =
     (case item_row (UsePointsRequest.item_id request) d of
        None \<Rightarrow> (Inl (HTTPException 404 ''Item not found''), d)
      | Some item \<Rightarrow>
     (case balance_row (UsePointsRequest.user_id request) d of
        None \<Rightarrow> (Inl (HTTPException 404 ''User not found''), d)
      | Some balance \<Rightarrow>
          if current_points balance < UsePointsRequest.points request
          then (Inl (HTTPException 400 ''Not enough points''), d)
          else if fault_hits fault (length (use_points_writes balance item request clk))
          then (Inl SQLAlchemyError, d)
          else (Inr [(''success'', PyBool True), (''message'', PyStr lit_completed),
                     (''remaining_points'',
                       PyInt (current_points balance - UsePointsRequest.points request))],
                fold (execute clk) (use_points_writes balance item request clk) d)))"
proof (cases "item_row (UsePointsRequest.item_id request) d")
  case None
  then show ?thesis
    by (simp add: get_db_def use_points_def SessionLocal_def view_def close_def rollback_def)
next
  case item: (Some item)
  show ?thesis
  proof (cases "balance_row (UsePointsRequest.user_id request) d")
    case None
    with item show ?thesis
      by (simp add: get_db_def use_points_def SessionLocal_def view_def close_def rollback_def)
  next
    case bal: (Some balance)
    show ?thesis
    proof (cases "current_points balance < UsePointsRequest.points request")
      case True
      with item bal show ?thesis
        by (simp add: get_db_def use_points_def SessionLocal_def view_def close_def rollback_def)
    next
      case False
      then have "UsePointsRequest.points request \<le> current_points balance" by simp
      from use_points_run[OF item bal this, of clk fault] item bal False
      show ?thesis by simp
    qed
  qed
qed

lemma redeem_points_legacy_route:
  "get_db (redeem_points_legacy clk fault uid iid) d =
     (case item_row iid d of
        None \<Rightarrow> (Inl (HTTPException 404 ''Item not found''), d)
      | Some item \<Rightarrow>
     (case balance_row uid d of
        None \<Rightarrow> (Inl (HTTPException 404 ''User not found''), d)
      | Some balance \<Rightarrow>
          if current_points balance < points_required item
          then (Inl (HTTPException 400 ''Not enough points''), d)
          else if fault_hits fault (length (redeem_points_legacy_writes balance item uid iid))
          then (Inl SQLAlchemyError, d)
          else (Inr [(''message'', PyStr lit_completed),
                     (''new_balance'', PyInt (current_points balance - points_required item))],
                fold (execute clk) (redeem_points_legacy_writes balance item uid iid) d)))"
proof (cases "item_row iid d")
  case None
  then show ?thesis
    by (simp add: get_db_def redeem_points_legacy_def SessionLocal_def view_def close_def
        rollback_def)
next
  case item: (Some item)
  show ?thesis
  proof (cases "balance_row uid d")
    case None
    with item show ?thesis
      by (simp add: get_db_def redeem_points_legacy_def SessionLocal_def view_def close_def
          rollback_def)
  next
    case bal: (Some balance)
    show ?thesis
    proof (cases "current_points balance < points_required item")
      case True
      with item bal show ?thesis
        by (simp add: get_db_def redeem_points_legacy_def SessionLocal_def view_def close_def
            rollback_def)
    next
      case False
      then have "points_required item \<le> current_points balance" by simp
      from redeem_points_legacy_run[OF item bal this, of clk fault] item bal False
      show ?thesis by simp
    qed
  qed
qed

lemma writes_same_length:
  "length (use_points_writes balance item
      \<lparr>UsePointsRequest.user_id = uid, UsePointsRequest.item_id = iid,
        UsePointsRequest.points = points_required item\<rparr> clk)
   = length (redeem_points_legacy_writes balance item uid iid)"
  by (simp add: use_points_writes_def redeem_points_legacy_writes_def)

lemmas session_defs = get_db_def SessionLocal_def view_def close_def rollback_def commit_def
  set_current_points_def add_def first_def Let_def


section \<open>The read accessors, seen from outside the session\<close>

lemma get_user_balance_route:
  "get_db (get_user_balance uid) d =
     (case balance_row uid d of
        None \<Rightarrow> (Inl (HTTPException 404 ''User not found''), d)
      | Some balance \<Rightarrow>
          (Inr [(''user_id'', PyInt uid),
                (''current_points'', PyInt (current_points balance)),
                (''expiring_points'', PyInt (expiring_points balance))], d))"
  by (simp add: get_db_def get_user_balance_def SessionLocal_def view_def close_def rollback_def
      split: option.splits)

lemma first_Some_holds: "first p rows = Some x \<Longrightarrow> p x"
  by (auto simp: first_def find_Some_iff)

lemma order_by_desc_date_sorted:
  "sorted_wrt (\<lambda>a b. PointHistory.date b \<le> PointHistory.date a) (order_by_desc_date rows)"
proof -
  have "sorted (map (\<lambda>h. - PointHistory.date h) (order_by_desc_date rows))"
    unfolding order_by_desc_date_def by (rule sorted_sort_key)
  then show ?thesis by (simp add: sorted_map)
qed

lemma order_by_desc_date_mset: "mset (order_by_desc_date rows) = mset rows"
  by (simp add: order_by_desc_date_def)

lemma get_point_history_run:
  "get_db (get_point_history uid limit ft) d =
     (let full = order_by_desc_date
            (filter (\<lambda>h. PointHistory.user_id h = uid
                        \<and> (ft = Some ''earned'' \<longrightarrow> 0 < PointHistory.points h)
                        \<and> (ft \<noteq> Some ''earned'' \<and> ft = Some ''used'' \<longrightarrow> PointHistory.points h < 0))
               (point_history d))
      in (case limit of
            None \<Rightarrow> Inr full
          | Some n \<Rightarrow> if n = 0 then Inr full else if n < 0 then Inl SQLAlchemyError
                      else Inr (take (nat n) full), d))"
proof -
  have f: "(if ft = Some ''earned''
            then filter (\<lambda>h. 0 < PointHistory.points h)
                   (filter (\<lambda>h. PointHistory.user_id h = uid) (point_history d))
            else if ft = Some ''used''
            then filter (\<lambda>h. PointHistory.points h < 0)
                   (filter (\<lambda>h. PointHistory.user_id h = uid) (point_history d))
            else filter (\<lambda>h. PointHistory.user_id h = uid) (point_history d))
         = filter (\<lambda>h. PointHistory.user_id h = uid
                        \<and> (ft = Some ''earned'' \<longrightarrow> 0 < PointHistory.points h)
                        \<and> (ft \<noteq> Some ''earned'' \<and> ft = Some ''used'' \<longrightarrow> PointHistory.points h < 0))
               (point_history d)"
    by (auto intro: filter_cong)
  show ?thesis
    unfolding get_db_def get_point_history_def Let_def f
    by (simp add: SessionLocal_def view_def close_def rollback_def f split: option.splits)
qed

lemma get_point_history_listing:
  fixes uid :: int and d :: database and ft :: "string option"
  assumes p: "\<And>h. p h \<longleftrightarrow> (ft = Some ''earned'' \<longrightarrow> 0 < PointHistory.points h)
                        \<and> (ft \<noteq> Some ''earned'' \<and> ft = Some ''used'' \<longrightarrow> PointHistory.points h < 0)"
    and lim: "limit = None \<or> (\<exists>n. limit = Some n \<and> 0 \<le> n)"
  shows "\<exists>full. listing uid p d full
           \<and> get_db (get_point_history uid limit ft) d = (Inr (limited limit full), d)"
proof -
  let ?full = "order_by_desc_date (filter (\<lambda>h. PointHistory.user_id h = uid \<and> p h) (point_history d))"
  have "listing uid p d ?full"
    by (simp add: listing_def order_by_desc_date_sorted order_by_desc_date_mset)
  moreover have "get_db (get_point_history uid limit ft) d = (Inr (limited limit ?full), d)"
    using lim by (auto simp: get_point_history_run limited_def p Let_def)
  ultimately show ?thesis by blast
qed

lemma sorted_wrt_take_drop:
  assumes "sorted_wrt r xs"
  shows "\<forall>a\<in>set (take k xs). \<forall>b\<in>set (drop k xs). r a b"
proof -
  from assms have "sorted_wrt r (take k xs @ drop k xs)" by simp
  then show ?thesis unfolding sorted_wrt_append by blast
qed

lemmas history_defs = get_point_history_def order_by_desc_date_def sort_key_def


section \<open>Redemption: the debit and its two audit rows\<close>

text \<open>
  Claim C1. The item and the user's balance row are in the store and the amount is at
  most \<open>current_points\<close>. Then a redemption that the storage layer does not fail ends in
  success: the answer carries the old \<open>current_points\<close> minus the amount
  (\<^verbatim>\<open>remaining_points\<close> on the flexible path, \<^verbatim>\<open>new_balance\<close> on the legacy one), the user's
  balance row holds that value, the redemption table has grown by exactly one row with
  \<open>points_spent = amount\<close>, and the point history by exactly one row with
  \<open>points = - amount\<close>. The flexible path debits \<open>request.points\<close>, the legacy path
  \<open>item.points_required\<close>.
\<close>

theorem redemption_debits_and_records:
  fixes clk :: clock and amount uid iid :: int
  assumes item: "item_row iid d = Some item"
    and bal: "balance_row uid d = Some balance"
    and enough: "amount \<le> current_points balance"
  defines "flexible \<equiv>
      get_db (use_points clk None
        \<lparr>UsePointsRequest.user_id = uid, UsePointsRequest.item_id = iid,
          UsePointsRequest.points = amount\<rparr>) d"
    and "legacy \<equiv> get_db (redeem_points_legacy clk None uid iid) d"
    and "redemption \<equiv>
      \<lparr>RedemptionHistory.id = next_id (map RedemptionHistory.id (redemption_history d)),
        RedemptionHistory.user_id = uid, RedemptionHistory.item_id = iid,
        RedemptionHistory.date = utcnow clk, points_spent = amount\<rparr>"
    and "entry \<equiv>
      \<lparr>PointHistory.id = next_id (map PointHistory.id (point_history d)),
        PointHistory.user_id = uid, PointHistory.date = utcnow clk,
        description = RedeemableItem.name item @ lit_exchanged,
        PointHistory.points = - amount, remarks = None\<rparr>"
  shows "fst flexible =
           Inr [(''success'', PyBool True), (''message'', PyStr lit_completed),
                (''remaining_points'', PyInt (current_points balance - amount))]
       \<and> map_option current_points (balance_row uid (snd flexible))
           = Some (current_points balance - amount)
       \<and> redemption_history (snd flexible) = redemption_history d @ [redemption]
       \<and> point_history (snd flexible) = point_history d @
           [entry\<lparr>PointHistory.date := now clk,
                  remarks := Some (lit_item_exchange @ RedeemableItem.name item)\<rparr>]
       \<and> (amount = points_required item \<longrightarrow>
            fst legacy =
              Inr [(''message'', PyStr lit_completed),
                   (''new_balance'', PyInt (current_points balance - amount))]
          \<and> map_option current_points (balance_row uid (snd legacy))
              = Some (current_points balance - amount)
          \<and> redemption_history (snd legacy) = redemption_history d @ [redemption]
          \<and> point_history (snd legacy) = point_history d @ [entry])"
proof -
  let ?request = "\<lparr>UsePointsRequest.user_id = uid, UsePointsRequest.item_id = iid,
                    UsePointsRequest.points = amount\<rparr>"
  have flex: "flexible =
      (Inr [(''success'', PyBool True), (''message'', PyStr lit_completed),
            (''remaining_points'', PyInt (current_points balance - amount))],
       fold (execute clk) (use_points_writes balance item ?request clk) d)"
    unfolding flexible_def using item bal enough
    by (subst use_points_run[where item = item and balance = balance])
       (simp_all add: fault_hits_def)
  note t = debit_tables[OF bal, of clk amount iid "Some (now clk)"
      "RedeemableItem.name item @ lit_exchanged"
      "Some (lit_item_exchange @ RedeemableItem.name item)"]
  have A: "fst flexible =
           Inr [(''success'', PyBool True), (''message'', PyStr lit_completed),
                (''remaining_points'', PyInt (current_points balance - amount))]"
    by (simp add: flex)
  have B: "map_option current_points (balance_row uid (snd flexible))
           = Some (current_points balance - amount)"
    using t(1) by (cases "amount = 0") (simp_all add: flex use_points_writes_def)
  have C: "redemption_history (snd flexible) = redemption_history d @ [redemption]"
    using t(2) by (cases "amount = 0") (simp_all add: flex use_points_writes_def redemption_def)
  have D: "point_history (snd flexible) = point_history d @
           [entry\<lparr>PointHistory.date := now clk,
                  remarks := Some (lit_item_exchange @ RedeemableItem.name item)\<rparr>]"
    using t(3) by (cases "amount = 0") (simp_all add: flex use_points_writes_def entry_def)
  have E: "fst legacy =
              Inr [(''message'', PyStr lit_completed),
                   (''new_balance'', PyInt (current_points balance - amount))]
          \<and> map_option current_points (balance_row uid (snd legacy))
              = Some (current_points balance - amount)
          \<and> redemption_history (snd legacy) = redemption_history d @ [redemption]
          \<and> point_history (snd legacy) = point_history d @ [entry]"
    if eq: "amount = points_required item"
  proof -
    have leg: "legacy =
      (Inr [(''message'', PyStr lit_completed),
            (''new_balance'', PyInt (current_points balance - amount))],
       fold (execute clk) (redeem_points_legacy_writes balance item uid iid) d)"
      unfolding legacy_def using item bal enough eq
      by (subst redeem_points_legacy_run[where item = item and balance = balance])
         (simp_all add: fault_hits_def)
    note u = debit_tables[OF bal, of clk amount iid None
        "RedeemableItem.name item @ lit_exchanged" None]
    show ?thesis
      using u(1) u(2) u(3) eq
      by (cases "amount = 0")
         (simp_all add: leg redeem_points_legacy_writes_def redemption_def entry_def)
  qed
  from A B C D E show ?thesis by blast
qed

theorem redemption_debits_and_records_witness:
  "fst (get_db (use_points example_clock None
          \<lparr>UsePointsRequest.user_id = 1, UsePointsRequest.item_id = 1,
            UsePointsRequest.points = 30\<rparr>) example_db)
     = Inr [(''success'', PyBool True), (''message'', PyStr lit_completed),
            (''remaining_points'', PyInt 70)]
   \<and> map_option current_points
       (balance_row 1 (snd (get_db (use_points example_clock None
          \<lparr>UsePointsRequest.user_id = 1, UsePointsRequest.item_id = 1,
            UsePointsRequest.points = 30\<rparr>) example_db))) = Some 70
   \<and> map points_spent (redemption_history (snd (get_db (use_points example_clock None
          \<lparr>UsePointsRequest.user_id = 1, UsePointsRequest.item_id = 1,
            UsePointsRequest.points = 30\<rparr>) example_db))) = [30]
   \<and> map PointHistory.points (point_history (snd (get_db (use_points example_clock None
          \<lparr>UsePointsRequest.user_id = 1, UsePointsRequest.item_id = 1,
            UsePointsRequest.points = 30\<rparr>) example_db))) = [10, - 5, 20, - 3, - 30]
   \<and> fst (get_db (redeem_points_legacy example_clock None 1 1) example_db)
     = Inr [(''message'', PyStr lit_completed), (''new_balance'', PyInt 70)]
   \<and> map points_spent (redemption_history
         (snd (get_db (redeem_points_legacy example_clock None 1 1) example_db))) = [30]"
proof -
  have i: "item_row 1 example_db =
      Some \<lparr>RedeemableItem.id = 1, RedeemableItem.name = ''Mug'', points_required = 30\<rparr>"
    by (simp add: example_db_def first_def)
  have b: "balance_row 1 example_db =
      Some \<lparr>UserBalance.id = 1, UserBalance.user_id = 1, current_points = 100,
          scheduled_points = 7, expiring_points = 10, updated_at = 0\<rparr>"
    by (simp add: example_db_def first_def)
  have e: "(30::int) \<le> current_points \<lparr>UserBalance.id = 1, UserBalance.user_id = 1,
      current_points = 100, scheduled_points = 7, expiring_points = 10, updated_at = 0\<rparr>"
    by simp
  from redemption_debits_and_records[OF i b e, of example_clock]
  show ?thesis by (simp add: example_db_def)
qed


section \<open>Redemption: failures\<close>

text \<open>
  Claim C2. The unit of work is all or nothing, on both paths. A run in which the storage
  layer fails (\<open>SQLAlchemyError\<close>, answered with status 500) leaves the persisted store
  as it was. A run that changes the persisted store at all has applied the whole unit:
  the user's balance row holds the old \<open>current_points\<close> minus the amount, and each of
  the two audit tables has one row more. And the failure is real: when the item and
  the balance are found and the points suffice, a fault at any of the first three
  statements of the commit makes the run fail.
\<close>

theorem redemption_all_or_nothing:
  fixes clk :: clock and fault :: "nat option" and request :: UsePointsRequest
    and d :: database
  defines "uid \<equiv> UsePointsRequest.user_id request"
    and "iid \<equiv> UsePointsRequest.item_id request"
    and "flexible \<equiv> get_db (use_points clk fault request) d"
    and "legacy \<equiv>
      get_db (redeem_points_legacy clk fault (UsePointsRequest.user_id request)
        (UsePointsRequest.item_id request)) d"
  shows "(fst flexible = Inl SQLAlchemyError \<longrightarrow> snd flexible = d)
       \<and> (fst legacy = Inl SQLAlchemyError \<longrightarrow> snd legacy = d)
       \<and> (snd flexible \<noteq> d \<longrightarrow>
            (\<exists>balance. balance_row uid d = Some balance
               \<and> map_option current_points (balance_row uid (snd flexible))
                   = Some (current_points balance - UsePointsRequest.points request))
          \<and> length (redemption_history (snd flexible)) = Suc (length (redemption_history d))
          \<and> length (point_history (snd flexible)) = Suc (length (point_history d)))
       \<and> (snd legacy \<noteq> d \<longrightarrow>
            (\<exists>balance item. balance_row uid d = Some balance \<and> item_row iid d = Some item
               \<and> map_option current_points (balance_row uid (snd legacy))
                   = Some (current_points balance - points_required item))
          \<and> length (redemption_history (snd legacy)) = Suc (length (redemption_history d))
          \<and> length (point_history (snd legacy)) = Suc (length (point_history d)))
       \<and> (\<forall>item balance k.
            item_row iid d = Some item \<and> balance_row uid d = Some balance
            \<and> fault = Some k \<and> k \<le> 2 \<longrightarrow>
              (UsePointsRequest.points request \<le> current_points balance
                 \<longrightarrow> flexible = (Inl SQLAlchemyError, d))
            \<and> (points_required item \<le> current_points balance
                 \<longrightarrow> legacy = (Inl SQLAlchemyError, d)))
       \<and> status_code SQLAlchemyError = 500"
proof -
  have F1: "fst flexible = Inl SQLAlchemyError \<longrightarrow> snd flexible = d"
    by (simp add: flexible_def use_points_route split: option.splits)
  have L1: "fst legacy = Inl SQLAlchemyError \<longrightarrow> snd legacy = d"
    by (simp add: legacy_def redeem_points_legacy_route split: option.splits)
  have F2: "(\<exists>balance. balance_row uid d = Some balance
               \<and> map_option current_points (balance_row uid (snd flexible))
                   = Some (current_points balance - UsePointsRequest.points request))
          \<and> length (redemption_history (snd flexible)) = Suc (length (redemption_history d))
          \<and> length (point_history (snd flexible)) = Suc (length (point_history d))"
    if ch: "snd flexible \<noteq> d"
  proof -
    from ch obtain item balance where
      i: "item_row iid d = Some item" and b: "balance_row uid d = Some balance"
      and fl: "snd flexible = fold (execute clk) (use_points_writes balance item request clk) d"
      by (auto simp: flexible_def use_points_route iid_def uid_def
          split: option.splits if_splits)
    note t = debit_tables[OF b, of clk "UsePointsRequest.points request" iid "Some (now clk)"
      "RedeemableItem.name item @ lit_exchanged"
      "Some (lit_item_exchange @ RedeemableItem.name item)"]
    have w: "use_points_writes balance item request clk =
      (if UsePointsRequest.points request = 0 then []
       else [Update_current_points (UserBalance.id balance)
              (current_points balance - UsePointsRequest.points request)]) @
      [Add_RedemptionHistory uid iid (UsePointsRequest.points request),
       Add_PointHistory uid (Some (now clk)) (RedeemableItem.name item @ lit_exchanged)
         (- UsePointsRequest.points request)
         (Some (lit_item_exchange @ RedeemableItem.name item))]"
      by (simp add: use_points_writes_def uid_def iid_def)
    from t(1) t(2) t(3) b show ?thesis
      unfolding fl w by simp
  qed
  have L2: "(\<exists>balance item. balance_row uid d = Some balance \<and> item_row iid d = Some item
               \<and> map_option current_points (balance_row uid (snd legacy))
                   = Some (current_points balance - points_required item))
          \<and> length (redemption_history (snd legacy)) = Suc (length (redemption_history d))
          \<and> length (point_history (snd legacy)) = Suc (length (point_history d))"
    if ch: "snd legacy \<noteq> d"
  proof -
    from ch obtain item balance where
      i: "item_row iid d = Some item" and b: "balance_row uid d = Some balance"
      and fl: "snd legacy = fold (execute clk) (redeem_points_legacy_writes balance item uid iid) d"
      by (auto simp: legacy_def redeem_points_legacy_route iid_def uid_def
          split: option.splits if_splits)
    note t = debit_tables[OF b, of clk "points_required item" iid None
      "RedeemableItem.name item @ lit_exchanged" None]
    from t(1) t(2) t(3) b i show ?thesis
      unfolding fl redeem_points_legacy_writes_def by simp
  qed
  have F3: "flexible = (Inl SQLAlchemyError, d)"
    if "item_row iid d = Some item" "balance_row uid d = Some balance" "fault = Some k" "k \<le> 2"
      "UsePointsRequest.points request \<le> current_points balance" for item balance k
    using that
    by (simp add: flexible_def use_points_route iid_def uid_def fault_hits_def
        use_points_writes_def)
  have L3: "legacy = (Inl SQLAlchemyError, d)"
    if "item_row iid d = Some item" "balance_row uid d = Some balance" "fault = Some k" "k \<le> 2"
      "points_required item \<le> current_points balance" for item balance k
    using that
    by (simp add: legacy_def redeem_points_legacy_route iid_def uid_def fault_hits_def
        redeem_points_legacy_writes_def)
  from F1 L1 F2 L2 F3 L3 show ?thesis by (simp (no_asm_simp)) blast
qed


theorem redemption_all_or_nothing_witness:
  "get_db (use_points example_clock (Some 1) example_request) example_db
     = (Inl SQLAlchemyError, example_db)
   \<and> get_db (redeem_points_legacy example_clock (Some 1) 1 1) example_db
     = (Inl SQLAlchemyError, example_db)
   \<and> map_option current_points
       (balance_row 1 (snd (get_db (use_points example_clock None example_request) example_db)))
     = Some 70
   \<and> length (redemption_history
       (snd (get_db (use_points example_clock None example_request) example_db))) = 1
   \<and> length (point_history
       (snd (get_db (use_points example_clock None example_request) example_db))) = 5
   \<and> map_option current_points
       (balance_row 1 (snd (get_db (redeem_points_legacy example_clock None 1 1) example_db)))
     = Some 70"
proof -
  have i: "item_row 1 example_db =
      Some \<lparr>RedeemableItem.id = 1, RedeemableItem.name = ''Mug'', points_required = 30\<rparr>"
    and b: "balance_row 1 example_db = Some example_balance"
    by (simp_all add: example_db_def first_def)
  have ch: "snd (get_db (use_points example_clock None example_request) example_db) \<noteq> example_db"
    "snd (get_db (redeem_points_legacy example_clock None 1 1) example_db) \<noteq> example_db"
    by (simp_all add: use_points_def redeem_points_legacy_def session_defs example_db_def)
  from redemption_all_or_nothing[of example_clock "Some 1" example_request example_db]
    i b
  have fail: "get_db (use_points example_clock (Some 1) example_request) example_db
     = (Inl SQLAlchemyError, example_db)
   \<and> get_db (redeem_points_legacy example_clock (Some 1) 1 1) example_db
     = (Inl SQLAlchemyError, example_db)"
    by simp
  from redemption_all_or_nothing[of example_clock None example_request example_db]
    i b ch
  have ok: "map_option current_points
       (balance_row 1 (snd (get_db (use_points example_clock None example_request) example_db)))
     = Some 70
   \<and> length (redemption_history
       (snd (get_db (use_points example_clock None example_request) example_db))) = 1
   \<and> length (point_history
       (snd (get_db (use_points example_clock None example_request) example_db))) = 5
   \<and> map_option current_points
       (balance_row 1 (snd (get_db (redeem_points_legacy example_clock None 1 1) example_db)))
     = Some 70"
    by (simp add: example_db_def)
  from fail ok show ?thesis by simp
qed


text \<open>
  Claim C3. The item and the balance row are in the store and the amount exceeds
  \<open>current_points\<close>. Then either path raises \<^verbatim>\<open>HTTPException(400, "Not enough points")\<close>,
  whatever the storage layer would have done, and the persisted store is the one
  before: balances, redemption rows and history rows are unchanged.
\<close>

theorem insufficient_points_rejected:
  fixes clk :: clock and fault :: "nat option" and amount uid iid :: int
  assumes item: "item_row iid d = Some item"
    and bal: "balance_row uid d = Some balance"
    and short: "current_points balance < amount"
  shows "get_db (use_points clk fault
           \<lparr>UsePointsRequest.user_id = uid, UsePointsRequest.item_id = iid,
             UsePointsRequest.points = amount\<rparr>) d
         = (Inl (HTTPException 400 ''Not enough points''), d)
       \<and> (amount = points_required item \<longrightarrow>
            get_db (redeem_points_legacy clk fault uid iid) d
            = (Inl (HTTPException 400 ''Not enough points''), d))
       \<and> status_code (HTTPException 400 ''Not enough points'') = 400"
  using item bal short by (simp add: use_points_route redeem_points_legacy_route)

theorem insufficient_points_rejected_witness:
  "get_db (use_points example_clock None
      \<lparr>UsePointsRequest.user_id = 1, UsePointsRequest.item_id = 1,
        UsePointsRequest.points = 1000\<rparr>) example_db
     = (Inl (HTTPException 400 ''Not enough points''), example_db)
   \<and> get_db (redeem_points_legacy example_clock None 1 2) example_db
     = (Inl (HTTPException 400 ''Not enough points''), example_db)"
proof -
  have i1: "item_row 1 example_db =
      Some \<lparr>RedeemableItem.id = 1, RedeemableItem.name = ''Mug'', points_required = 30\<rparr>"
    and i2: "item_row 2 example_db =
      Some \<lparr>RedeemableItem.id = 2, RedeemableItem.name = ''Bike'', points_required = 500\<rparr>"
    and b: "balance_row 1 example_db = Some example_balance"
    by (simp_all add: example_db_def first_def)
  from insufficient_points_rejected[OF i1 b, of 1000 example_clock None]
    insufficient_points_rejected[OF i2 b, of 500 example_clock None]
  show ?thesis by simp
qed


text \<open>
  Claim C4. A redemption whose item is not in the store raises
  \<^verbatim>\<open>HTTPException(404, "Item not found")\<close>; one whose item is there and whose user has no
  balance row raises \<^verbatim>\<open>HTTPException(404, "User not found")\<close>. The item is looked up
  first, so with both missing the answer names the item. In each case the persisted
  store is unchanged. Both paths.
\<close>

theorem unknown_item_or_user_rejected:
  fixes clk :: clock and fault :: "nat option" and request :: UsePointsRequest
  defines "iid \<equiv> UsePointsRequest.item_id request"
    and "uid \<equiv> UsePointsRequest.user_id request"
  shows "(item_row iid d = None \<longrightarrow>
            get_db (use_points clk fault request) d
              = (Inl (HTTPException 404 ''Item not found''), d)
          \<and> get_db (redeem_points_legacy clk fault uid iid) d
              = (Inl (HTTPException 404 ''Item not found''), d))
       \<and> (item_row iid d \<noteq> None \<and> balance_row uid d = None \<longrightarrow>
            get_db (use_points clk fault request) d
              = (Inl (HTTPException 404 ''User not found''), d)
          \<and> get_db (redeem_points_legacy clk fault uid iid) d
              = (Inl (HTTPException 404 ''User not found''), d))
       \<and> status_code (HTTPException 404 ''Item not found'') = 404
       \<and> status_code (HTTPException 404 ''User not found'') = 404"
  by (auto simp: use_points_route redeem_points_legacy_route iid_def uid_def)


theorem unknown_item_or_user_rejected_witness:
  "get_db (use_points example_clock None
      \<lparr>UsePointsRequest.user_id = 99, UsePointsRequest.item_id = 99,
        UsePointsRequest.points = 30\<rparr>) example_db
     = (Inl (HTTPException 404 ''Item not found''), example_db)
   \<and> get_db (redeem_points_legacy example_clock None 99 99) example_db
     = (Inl (HTTPException 404 ''Item not found''), example_db)
   \<and> get_db (use_points example_clock None
      \<lparr>UsePointsRequest.user_id = 99, UsePointsRequest.item_id = 1,
        UsePointsRequest.points = 30\<rparr>) example_db
     = (Inl (HTTPException 404 ''User not found''), example_db)
   \<and> get_db (redeem_points_legacy example_clock None 99 1) example_db
     = (Inl (HTTPException 404 ''User not found''), example_db)"
proof -
  have i0: "item_row 99 example_db = None"
    and i1: "item_row 1 example_db \<noteq> None"
    and b: "balance_row 99 example_db = None"
    by (simp_all add: example_db_def first_def)
  from unknown_item_or_user_rejected[of
      "\<lparr>UsePointsRequest.user_id = 99, UsePointsRequest.item_id = 99,
        UsePointsRequest.points = 30\<rparr>" example_db example_clock None]
    unknown_item_or_user_rejected[of
      "\<lparr>UsePointsRequest.user_id = 99, UsePointsRequest.item_id = 1,
        UsePointsRequest.points = 30\<rparr>" example_db example_clock None]
    i0 i1 b
  show ?thesis by simp
qed


section \<open>Redemption: the two request shapes\<close>

text \<open>
  Claim C5. For an item in the store, the legacy redemption of \<open>(uid, iid)\<close> and the
  flexible one of \<open>(uid, iid, points = item.points_required)\<close>, under the same clock
  and the same behaviour of the storage layer, have the same outcome: both raise the
  same error, or both succeed and carry the same balance (\<^verbatim>\<open>new_balance\<close>, \<^verbatim>\<open>remaining_points\<close>);
  they leave the same balance rows and the same redemption rows, and history rows
  that agree in everything but \<open>date\<close> (\<^verbatim>\<open>datetime.utcnow\<close> against \<^verbatim>\<open>datetime.now()\<close>)
  and \<open>remarks\<close>, so in \<open>description\<close> and \<open>points\<close>.
\<close>

theorem legacy_is_flexible_at_list_price:
  fixes clk :: clock and fault :: "nat option" and uid iid :: int and d :: database
    and item :: RedeemableItem
  assumes item: "item_row iid d = Some item"
  defines "legacy \<equiv> get_db (redeem_points_legacy clk fault uid iid) d"
    and "flexible \<equiv>
      get_db (use_points clk fault
        \<lparr>UsePointsRequest.user_id = uid, UsePointsRequest.item_id = iid,
          UsePointsRequest.points = points_required item\<rparr>) d"
  shows "((\<exists>e. fst legacy = Inl e \<and> fst flexible = Inl e)
          \<or> (\<exists>n. fst legacy = Inr [(''message'', PyStr lit_completed), (''new_balance'', PyInt n)]
                \<and> fst flexible = Inr [(''success'', PyBool True), (''message'', PyStr lit_completed),
                                      (''remaining_points'', PyInt n)]))
       \<and> user_balance (snd legacy) = user_balance (snd flexible)
       \<and> redemption_history (snd legacy) = redemption_history (snd flexible)
       \<and> map (\<lambda>h. h\<lparr>PointHistory.date := 0, remarks := None\<rparr>) (point_history (snd legacy))
         = map (\<lambda>h. h\<lparr>PointHistory.date := 0, remarks := None\<rparr>) (point_history (snd flexible))
       \<and> users (snd legacy) = users (snd flexible)
       \<and> redeemable_items (snd legacy) = redeemable_items (snd flexible)"
proof (cases "balance_row uid d")
  case None
  with item show ?thesis
    by (simp add: legacy_def flexible_def use_points_route redeem_points_legacy_route)
next
  case (Some balance)
  show ?thesis
  proof (cases "current_points balance < points_required item")
    case True
    with item Some show ?thesis
      by (simp add: legacy_def flexible_def use_points_route redeem_points_legacy_route)
  next
    case enough: False
    show ?thesis
    proof (cases "fault_hits fault (length (redeem_points_legacy_writes balance item uid iid))")
      case True
      with item Some enough show ?thesis
        by (simp add: legacy_def flexible_def use_points_route redeem_points_legacy_route
            writes_same_length)
    next
      case False
      with item Some enough show ?thesis
        by (simp add: legacy_def flexible_def use_points_route redeem_points_legacy_route
            writes_same_length)
           (simp add: use_points_writes_def redeem_points_legacy_writes_def)
    qed
  qed
qed

theorem legacy_is_flexible_at_list_price_witness:
  "fst (get_db (redeem_points_legacy example_clock None 1 1) example_db)
     = Inr [(''message'', PyStr lit_completed), (''new_balance'', PyInt 70)]
   \<and> fst (get_db (use_points example_clock None example_request) example_db)
     = Inr [(''success'', PyBool True), (''message'', PyStr lit_completed),
            (''remaining_points'', PyInt 70)]
   \<and> user_balance (snd (get_db (redeem_points_legacy example_clock None 1 1) example_db))
     = user_balance (snd (get_db (use_points example_clock None example_request) example_db))
   \<and> redemption_history (snd (get_db (redeem_points_legacy example_clock None 1 1) example_db))
     = redemption_history (snd (get_db (use_points example_clock None example_request) example_db))
   \<and> map (\<lambda>h. (description h, PointHistory.points h))
        (point_history (snd (get_db (redeem_points_legacy example_clock None 1 1) example_db)))
     = map (\<lambda>h. (description h, PointHistory.points h))
        (point_history (snd (get_db (use_points example_clock None example_request) example_db)))"
proof -
  have i: "item_row 1 example_db =
      Some \<lparr>RedeemableItem.id = 1, RedeemableItem.name = ''Mug'', points_required = 30\<rparr>"
    by (simp add: example_db_def first_def)
  have l: "fst (get_db (redeem_points_legacy example_clock None 1 1) example_db)
     = Inr [(''message'', PyStr lit_completed), (''new_balance'', PyInt 70)]"
    by (simp add: redeem_points_legacy_def session_defs example_db_def)
  note T = legacy_is_flexible_at_list_price[OF i, of example_clock None 1]
  from T l have A: "fst (get_db (use_points example_clock None example_request) example_db)
     = Inr [(''success'', PyBool True), (''message'', PyStr lit_completed),
            (''remaining_points'', PyInt 70)]"
    by auto
  from T have B: "map (\<lambda>h. h\<lparr>PointHistory.date := 0, remarks := None\<rparr>)
        (point_history (snd (get_db (redeem_points_legacy example_clock None 1 1) example_db)))
     = map (\<lambda>h. h\<lparr>PointHistory.date := 0, remarks := None\<rparr>)
        (point_history (snd (get_db (use_points example_clock None example_request) example_db)))"
    by simp
  have "map (\<lambda>h. (description h, PointHistory.points h)) xs
        = map (\<lambda>h. (description h, PointHistory.points h)) ys"
    if "map (\<lambda>h. h\<lparr>PointHistory.date := 0, remarks := None\<rparr>) xs
        = map (\<lambda>h. h\<lparr>PointHistory.date := 0, remarks := None\<rparr>) ys" for xs ys :: "PointHistory list"
  proof -
    have "map (\<lambda>h. (description h, PointHistory.points h)) zs
          = map (\<lambda>h. (description h, PointHistory.points h))
              (map (\<lambda>h. h\<lparr>PointHistory.date := 0, remarks := None\<rparr>) zs)" for zs :: "PointHistory list"
      by simp
    with that show ?thesis by metis
  qed
  from this[OF B] T l A show ?thesis by simp
qed


section \<open>Redemption: the sign of the amount\<close>

text \<open>
  Claim C6, as stated: every redemption row has a positive \<open>points_spent\<close>. It fails:
  a flexible request for 0 points succeeds on the sample store and writes a row with
  \<open>points_spent = 0\<close>.
\<close>

theorem points_spent_not_positive_counterexample:
  "fst (get_db (use_points example_clock None
          \<lparr>UsePointsRequest.user_id = 1, UsePointsRequest.item_id = 1,
            UsePointsRequest.points = 0\<rparr>) example_db)
     = Inr [(''success'', PyBool True), (''message'', PyStr lit_completed),
            (''remaining_points'', PyInt 100)]
   \<and> map points_spent (redemption_history (snd (get_db (use_points example_clock None
          \<lparr>UsePointsRequest.user_id = 1, UsePointsRequest.item_id = 1,
            UsePointsRequest.points = 0\<rparr>) example_db))) = [0]
   \<and> \<not> 0 < points_spent (last (redemption_history (snd (get_db (use_points example_clock None
          \<lparr>UsePointsRequest.user_id = 1, UsePointsRequest.item_id = 1,
            UsePointsRequest.points = 0\<rparr>) example_db))))"
  by (simp add: use_points_def session_defs example_db_def)



text \<open>
  Claim C6, amended. Every redemption row that either path produces has
  \<open>points_spent\<close> equal to the amount debited: the user's \<open>current_points\<close> after the run
  is the one before minus \<open>points_spent\<close>. That amount is \<open>request.points\<close> on the
  flexible path and \<open>item.points_required\<close> on the legacy one, and \<open>points_spent\<close> is
  positive exactly when it is; neither path asks for that.
\<close>

theorem points_spent_is_the_debit:
  fixes clk :: clock and fault :: "nat option" and request :: UsePointsRequest
    and d :: database
  defines "uid \<equiv> UsePointsRequest.user_id request"
    and "iid \<equiv> UsePointsRequest.item_id request"
    and "flexible \<equiv> get_db (use_points clk fault request) d"
    and "legacy \<equiv>
      get_db (redeem_points_legacy clk fault (UsePointsRequest.user_id request)
        (UsePointsRequest.item_id request)) d"
  shows "(redemption_history (snd flexible) \<noteq> redemption_history d \<longrightarrow>
           (\<exists>balance r. balance_row uid d = Some balance
              \<and> redemption_history (snd flexible) = redemption_history d @ [r]
              \<and> points_spent r = UsePointsRequest.points request
              \<and> map_option current_points (balance_row uid (snd flexible))
                  = Some (current_points balance - points_spent r)
              \<and> (0 < points_spent r) = (0 < UsePointsRequest.points request)))
       \<and> (redemption_history (snd legacy) \<noteq> redemption_history d \<longrightarrow>
           (\<exists>balance item r. balance_row uid d = Some balance \<and> item_row iid d = Some item
              \<and> redemption_history (snd legacy) = redemption_history d @ [r]
              \<and> points_spent r = points_required item
              \<and> map_option current_points (balance_row uid (snd legacy))
                  = Some (current_points balance - points_spent r)
              \<and> (0 < points_spent r) = (0 < points_required item)))"
proof -
  have F: "\<exists>balance r. balance_row uid d = Some balance
              \<and> redemption_history (snd flexible) = redemption_history d @ [r]
              \<and> points_spent r = UsePointsRequest.points request
              \<and> map_option current_points (balance_row uid (snd flexible))
                  = Some (current_points balance - points_spent r)
              \<and> (0 < points_spent r) = (0 < UsePointsRequest.points request)"
    if ch: "redemption_history (snd flexible) \<noteq> redemption_history d"
  proof -
    from ch obtain item balance where
      i: "item_row iid d = Some item" and b: "balance_row uid d = Some balance"
      and fl: "snd flexible = fold (execute clk) (use_points_writes balance item request clk) d"
      by (auto simp: flexible_def use_points_route iid_def uid_def
          split: option.splits if_splits)
    note t = debit_tables[OF b, of clk "UsePointsRequest.points request" iid "Some (now clk)"
      "RedeemableItem.name item @ lit_exchanged"
      "Some (lit_item_exchange @ RedeemableItem.name item)"]
    have w: "use_points_writes balance item request clk =
      (if UsePointsRequest.points request = 0 then []
       else [Update_current_points (UserBalance.id balance)
              (current_points balance - UsePointsRequest.points request)]) @
      [Add_RedemptionHistory uid iid (UsePointsRequest.points request),
       Add_PointHistory uid (Some (now clk)) (RedeemableItem.name item @ lit_exchanged)
         (- UsePointsRequest.points request)
         (Some (lit_item_exchange @ RedeemableItem.name item))]"
      by (simp add: use_points_writes_def uid_def iid_def)
    from t(1) t(2) b show ?thesis
      unfolding fl w by simp
  qed
  have L: "\<exists>balance item r. balance_row uid d = Some balance \<and> item_row iid d = Some item
              \<and> redemption_history (snd legacy) = redemption_history d @ [r]
              \<and> points_spent r = points_required item
              \<and> map_option current_points (balance_row uid (snd legacy))
                  = Some (current_points balance - points_spent r)
              \<and> (0 < points_spent r) = (0 < points_required item)"
    if ch: "redemption_history (snd legacy) \<noteq> redemption_history d"
  proof -
    from ch obtain item balance where
      i: "item_row iid d = Some item" and b: "balance_row uid d = Some balance"
      and fl: "snd legacy = fold (execute clk) (redeem_points_legacy_writes balance item uid iid) d"
      by (auto simp: legacy_def redeem_points_legacy_route iid_def uid_def
          split: option.splits if_splits)
    note t = debit_tables[OF b, of clk "points_required item" iid None
      "RedeemableItem.name item @ lit_exchanged" None]
    from t(1) t(2) b i show ?thesis
      unfolding fl redeem_points_legacy_writes_def by simp
  qed
  from F L show ?thesis by blast
qed


theorem points_spent_is_the_debit_witness:
  "map points_spent (redemption_history
      (snd (get_db (use_points example_clock None example_request) example_db))) = [30]
   \<and> map_option current_points (balance_row 1
      (snd (get_db (use_points example_clock None example_request) example_db))) = Some 70
   \<and> map points_spent (redemption_history
      (snd (get_db (redeem_points_legacy example_clock None 1 1) example_db))) = [30]
   \<and> map_option current_points (balance_row 1
      (snd (get_db (redeem_points_legacy example_clock None 1 1) example_db))) = Some 70"
proof -
  have i: "item_row 1 example_db =
      Some \<lparr>RedeemableItem.id = 1, RedeemableItem.name = ''Mug'', points_required = 30\<rparr>"
    and b: "balance_row 1 example_db = Some example_balance"
    by (simp_all add: example_db_def first_def)
  have ch: "redemption_history (snd (get_db (use_points example_clock None example_request) example_db))
      \<noteq> redemption_history example_db"
    "redemption_history (snd (get_db (redeem_points_legacy example_clock None 1 1) example_db))
      \<noteq> redemption_history example_db"
    by (simp_all add: use_points_def redeem_points_legacy_def session_defs example_db_def)
  from points_spent_is_the_debit[of example_clock None example_request example_db] i b ch
  show ?thesis by (auto simp: example_db_def)
qed



text \<open>
  Claim C10. A flexible request with \<open>points \<le> 0\<close> for an item and a user in the store
  passes the check \<open>current_points < points\<close> whenever \<open>current_points \<ge> points\<close>, so in
  particular for every balance that is not negative. It then succeeds (the storage
  layer not failing): \<open>current_points\<close> grows by \<open>\<bar>points\<bar>\<close>, the redemption row has
  \<open>points_spent = points\<close> and the history row \<open>points = \<bar>points\<bar>\<close>. For \<open>points < 0\<close> the
  balance is credited, \<open>points_spent\<close> is negative and the history row positive.
\<close>

theorem negative_amount_credits:
  fixes clk :: clock and amount uid iid :: int and d :: database
  assumes item: "item_row iid d = Some item"
    and bal: "balance_row uid d = Some balance"
    and neg: "amount \<le> 0"
    and check: "amount \<le> current_points balance \<or> 0 \<le> current_points balance"
  defines "flexible \<equiv>
      get_db (use_points clk None
        \<lparr>UsePointsRequest.user_id = uid, UsePointsRequest.item_id = iid,
          UsePointsRequest.points = amount\<rparr>) d"
  shows "fst flexible =
           Inr [(''success'', PyBool True), (''message'', PyStr lit_completed),
                (''remaining_points'', PyInt (current_points balance + \<bar>amount\<bar>))]
       \<and> map_option current_points (balance_row uid (snd flexible))
           = Some (current_points balance + \<bar>amount\<bar>)
       \<and> map points_spent (redemption_history (snd flexible))
           = map points_spent (redemption_history d) @ [amount]
       \<and> map PointHistory.points (point_history (snd flexible))
           = map PointHistory.points (point_history d) @ [\<bar>amount\<bar>]
       \<and> (amount < 0 \<longrightarrow>
            (\<exists>b r h. balance_row uid (snd flexible) = Some b
               \<and> current_points balance < current_points b
               \<and> redemption_history (snd flexible) = redemption_history d @ [r]
               \<and> points_spent r < 0
               \<and> point_history (snd flexible) = point_history d @ [h]
               \<and> 0 < PointHistory.points h))"
proof -
  let ?request = "\<lparr>UsePointsRequest.user_id = uid, UsePointsRequest.item_id = iid,
                    UsePointsRequest.points = amount\<rparr>"
  from neg check have enough: "amount \<le> current_points balance" by auto
  have flex: "flexible =
      (Inr [(''success'', PyBool True), (''message'', PyStr lit_completed),
            (''remaining_points'', PyInt (current_points balance - amount))],
       fold (execute clk) (use_points_writes balance item ?request clk) d)"
    unfolding flexible_def using item bal enough
    by (subst use_points_run[where item = item and balance = balance])
       (simp_all add: fault_hits_def)
  note t = debit_tables[OF bal, of clk amount iid "Some (now clk)"
      "RedeemableItem.name item @ lit_exchanged"
      "Some (lit_item_exchange @ RedeemableItem.name item)"]
  have w: "use_points_writes balance item ?request clk =
      (if amount = 0 then []
       else [Update_current_points (UserBalance.id balance) (current_points balance - amount)]) @
      [Add_RedemptionHistory uid iid amount,
       Add_PointHistory uid (Some (now clk)) (RedeemableItem.name item @ lit_exchanged)
         (- amount) (Some (lit_item_exchange @ RedeemableItem.name item))]"
    by (simp add: use_points_writes_def)
  have abs: "\<bar>amount\<bar> = - amount"
    using neg by simp
  have A: "fst flexible =
           Inr [(''success'', PyBool True), (''message'', PyStr lit_completed),
                (''remaining_points'', PyInt (current_points balance + \<bar>amount\<bar>))]"
    by (simp add: flex abs)
  have B: "map_option current_points (balance_row uid (snd flexible))
           = Some (current_points balance + \<bar>amount\<bar>)"
    using t(1) unfolding flex w by (simp add: abs)
  have C: "map points_spent (redemption_history (snd flexible))
           = map points_spent (redemption_history d) @ [amount]"
    using t(2) unfolding flex w by simp
  have D: "map PointHistory.points (point_history (snd flexible))
           = map PointHistory.points (point_history d) @ [\<bar>amount\<bar>]"
    using t(3) unfolding flex w by (simp add: abs)
  have E: "\<exists>b r h. balance_row uid (snd flexible) = Some b
               \<and> current_points balance < current_points b
               \<and> redemption_history (snd flexible) = redemption_history d @ [r]
               \<and> points_spent r < 0
               \<and> point_history (snd flexible) = point_history d @ [h]
               \<and> 0 < PointHistory.points h"
    if "amount < 0"
  proof -
    from t(1) obtain b where b: "balance_row uid (snd flexible) = Some b"
      and cb: "current_points b = current_points balance - amount"
      unfolding flex w by auto
    from b cb t(2) t(3) that show ?thesis
      unfolding flex w by simp
  qed
  from A B C D E show ?thesis by blast
qed


theorem negative_amount_credits_witness:
  "fst (get_db (use_points example_clock None
          \<lparr>UsePointsRequest.user_id = 1, UsePointsRequest.item_id = 1,
            UsePointsRequest.points = - 5\<rparr>) example_db)
     = Inr [(''success'', PyBool True), (''message'', PyStr lit_completed),
            (''remaining_points'', PyInt 105)]
   \<and> map_option current_points (balance_row 1 (snd (get_db (use_points example_clock None
          \<lparr>UsePointsRequest.user_id = 1, UsePointsRequest.item_id = 1,
            UsePointsRequest.points = - 5\<rparr>) example_db))) = Some 105
   \<and> map points_spent (redemption_history (snd (get_db (use_points example_clock None
          \<lparr>UsePointsRequest.user_id = 1, UsePointsRequest.item_id = 1,
            UsePointsRequest.points = - 5\<rparr>) example_db))) = [- 5]
   \<and> map PointHistory.points (point_history (snd (get_db (use_points example_clock None
          \<lparr>UsePointsRequest.user_id = 1, UsePointsRequest.item_id = 1,
            UsePointsRequest.points = - 5\<rparr>) example_db))) = [10, - 5, 20, - 3, 5]"
proof -
  have i: "item_row 1 example_db =
      Some \<lparr>RedeemableItem.id = 1, RedeemableItem.name = ''Mug'', points_required = 30\<rparr>"
    and b: "balance_row 1 example_db = Some example_balance"
    by (simp_all add: example_db_def first_def)
  have n: "(- 5 :: int) \<le> 0" by simp
  have c: "(- 5 :: int) \<le> current_points example_balance \<or> 0 \<le> current_points example_balance"
    by simp
  from negative_amount_credits[OF i b n c, of example_clock]
  show ?thesis by (simp add: example_db_def)
qed



section \<open>Reading the balance\<close>

text \<open>
  Claim C7. For a user with a balance row, \<^verbatim>\<open>get_user_balance\<close> answers with exactly the
  keys \<^verbatim>\<open>user_id\<close>, \<^verbatim>\<open>current_points\<close> and \<^verbatim>\<open>expiring_points\<close>, holding the stored values;
  \<^verbatim>\<open>scheduled_points\<close> is no key of the answer, and the answer does not depend on what the
  rows store in that column. Without a balance row the handler raises
  \<^verbatim>\<open>HTTPException(404, "User not found")\<close>. The store is not changed.
\<close>

theorem balance_response_shape:
  fixes uid :: int and d :: database and g :: "UserBalance \<Rightarrow> int"
  shows "(\<forall>balance. balance_row uid d = Some balance \<longrightarrow>
            get_db (get_user_balance uid) d
              = (Inr [(''user_id'', PyInt (UserBalance.user_id balance)),
                      (''current_points'', PyInt (current_points balance)),
                      (''expiring_points'', PyInt (expiring_points balance))], d))
       \<and> (balance_row uid d = None \<longrightarrow>
            get_db (get_user_balance uid) d = (Inl (HTTPException 404 ''User not found''), d)
            \<and> status_code (HTTPException 404 ''User not found'') = 404)
       \<and> (\<forall>r. fst (get_db (get_user_balance uid) d) = Inr r \<longrightarrow>
            map fst r = [''user_id'', ''current_points'', ''expiring_points'']
            \<and> ''scheduled_points'' \<notin> fst ` set r)
       \<and> fst (get_db (get_user_balance uid)
              (d\<lparr>user_balance := map (\<lambda>b. b\<lparr>scheduled_points := g b\<rparr>) (user_balance d)\<rparr>))
           = fst (get_db (get_user_balance uid) d)"
proof -
  have A: "get_db (get_user_balance uid) d
              = (Inr [(''user_id'', PyInt (UserBalance.user_id balance)),
                      (''current_points'', PyInt (current_points balance)),
                      (''expiring_points'', PyInt (expiring_points balance))], d)"
    if "balance_row uid d = Some balance" for balance
    using that first_Some_holds[OF that] by (simp add: get_user_balance_route)
  have B: "balance_row uid d = None \<longrightarrow>
            get_db (get_user_balance uid) d = (Inl (HTTPException 404 ''User not found''), d)
            \<and> status_code (HTTPException 404 ''User not found'') = 404"
    by (simp add: get_user_balance_route)
  have C: "map fst r = [''user_id'', ''current_points'', ''expiring_points'']
            \<and> ''scheduled_points'' \<notin> fst ` set r"
    if "fst (get_db (get_user_balance uid) d) = Inr r" for r
    using that by (auto simp: get_user_balance_route split: option.splits)
  have "find (\<lambda>b. UserBalance.user_id b = uid)
          (map (\<lambda>b. b\<lparr>scheduled_points := g b\<rparr>) (user_balance d))
        = map_option (\<lambda>b. b\<lparr>scheduled_points := g b\<rparr>)
            (find (\<lambda>b. UserBalance.user_id b = uid) (user_balance d))"
    by (rule find_map_same) simp
  then have D: "fst (get_db (get_user_balance uid)
              (d\<lparr>user_balance := map (\<lambda>b. b\<lparr>scheduled_points := g b\<rparr>) (user_balance d)\<rparr>))
           = fst (get_db (get_user_balance uid) d)"
    by (simp add: get_user_balance_route first_def split: option.splits)
  from A B C D show ?thesis by blast
qed

theorem balance_response_shape_witness:
  "get_db (get_user_balance 1) example_db
     = (Inr [(''user_id'', PyInt 1), (''current_points'', PyInt 100),
             (''expiring_points'', PyInt 10)], example_db)
   \<and> get_db (get_user_balance 99) example_db
     = (Inl (HTTPException 404 ''User not found''), example_db)
   \<and> fst (get_db (get_user_balance 1)
        (example_db\<lparr>user_balance :=
           map (\<lambda>b. b\<lparr>scheduled_points := 0\<rparr>) (user_balance example_db)\<rparr>))
     = Inr [(''user_id'', PyInt 1), (''current_points'', PyInt 100),
             (''expiring_points'', PyInt 10)]"
proof -
  have b: "balance_row 1 example_db = Some example_balance"
    and n: "balance_row 99 example_db = None"
    by (simp_all add: example_db_def first_def)
  from balance_response_shape[of 1 example_db "\<lambda>b. 0"] balance_response_shape[of 99 example_db] b n
  show ?thesis by simp
qed



section \<open>Reading the point history\<close>

text \<open>
  Claim C8. For a limit that is unset or not negative, the answer of
  \<^verbatim>\<open>get_point_history\<close> is the truncation by that limit of a listing of the user's
  entries: with \<^verbatim>\<open>filter_type = "earned"\<close> exactly the user's entries with \<open>points > 0\<close>,
  with \<^verbatim>\<open>"used"\<close> exactly those with \<open>points < 0\<close>, with \<^verbatim>\<open>filter_type\<close> unset or
  \<^verbatim>\<open>"all"\<close> all of the user's entries, in each case by decreasing date. Whatever the
  filter, the rows of an answer are ordered by decreasing date. The truncation is the
  identity for a limit that is unset, 0, or at least the number of rows.
\<close>

theorem point_history_filter:
  fixes uid :: int and d :: database and limit :: "int option"
  assumes lim: "limit = None \<or> (\<exists>n. limit = Some n \<and> 0 \<le> n)"
  shows "(\<exists>full. listing uid (\<lambda>h. 0 < PointHistory.points h) d full
            \<and> get_db (get_point_history uid limit (Some ''earned'')) d
                = (Inr (limited limit full), d))
       \<and> (\<exists>full. listing uid (\<lambda>h. PointHistory.points h < 0) d full
            \<and> get_db (get_point_history uid limit (Some ''used'')) d
                = (Inr (limited limit full), d))
       \<and> (\<exists>full. listing uid (\<lambda>h. True) d full
            \<and> get_db (get_point_history uid limit None) d = (Inr (limited limit full), d)
            \<and> get_db (get_point_history uid limit (Some ''all'')) d
                = (Inr (limited limit full), d))
       \<and> (\<forall>ft rows. get_db (get_point_history uid limit ft) d = (Inr rows, d) \<longrightarrow>
            sorted_wrt (\<lambda>a b. PointHistory.date b \<le> PointHistory.date a) rows)
       \<and> (\<forall>rows :: PointHistory list.
            limited None rows = rows \<and> limited (Some 0) rows = rows
            \<and> (\<forall>n. int (length rows) \<le> n \<longrightarrow> limited (Some n) rows = rows))"
proof -
  have E: "\<exists>full. listing uid (\<lambda>h. 0 < PointHistory.points h) d full
            \<and> get_db (get_point_history uid limit (Some ''earned'')) d
                = (Inr (limited limit full), d)"
    by (rule get_point_history_listing[OF _ lim]) simp
  have U: "\<exists>full. listing uid (\<lambda>h. PointHistory.points h < 0) d full
            \<and> get_db (get_point_history uid limit (Some ''used'')) d
                = (Inr (limited limit full), d)"
    by (rule get_point_history_listing[OF _ lim]) simp
  have A: "\<exists>full. listing uid (\<lambda>h. True) d full
            \<and> get_db (get_point_history uid limit None) d = (Inr (limited limit full), d)
            \<and> get_db (get_point_history uid limit (Some ''all'')) d
                = (Inr (limited limit full), d)"
  proof -
    from get_point_history_listing[OF _ lim, of "\<lambda>h. True" None uid d]
    obtain full where l: "listing uid (\<lambda>h. True) d full"
      and n: "get_db (get_point_history uid limit None) d = (Inr (limited limit full), d)"
      by auto
    have "get_db (get_point_history uid limit (Some ''all'')) d
          = get_db (get_point_history uid limit None) d"
      by (simp add: get_point_history_run)
    with l n show ?thesis by auto
  qed
  have S: "sorted_wrt (\<lambda>a b. PointHistory.date b \<le> PointHistory.date a) rows"
    if "get_db (get_point_history uid limit ft) d = (Inr rows, d)" for ft rows
  proof -
    have t: "sorted_wrt (\<lambda>a b. PointHistory.date b \<le> PointHistory.date a)
               (take k (order_by_desc_date xs))" for k xs
      using order_by_desc_date_sorted[of xs] by (rule sorted_wrt_take)
    from that show ?thesis
      by (auto simp: get_point_history_run Let_def order_by_desc_date_sorted t
          split: option.splits if_splits)
  qed
  have L: "limited None rows = rows \<and> limited (Some 0) rows = rows
            \<and> (\<forall>n. int (length rows) \<le> n \<longrightarrow> limited (Some n) rows = rows)"
    for rows :: "PointHistory list"
    by (auto simp: limited_def)
  from S have S': "\<forall>ft rows. get_db (get_point_history uid limit ft) d = (Inr rows, d) \<longrightarrow>
            sorted_wrt (\<lambda>a b. PointHistory.date b \<le> PointHistory.date a) rows"
    by blast
  from L have L': "\<forall>rows :: PointHistory list.
            limited None rows = rows \<and> limited (Some 0) rows = rows
            \<and> (\<forall>n. int (length rows) \<le> n \<longrightarrow> limited (Some n) rows = rows)"
    by blast
  from E U A S' L' show ?thesis by (intro conjI)
qed


theorem point_history_filter_witness:
  "get_db (get_point_history 1 (Some 5) (Some ''earned'')) example_db
     = (Inr example_earned, example_db)
   \<and> listing 1 (\<lambda>h. 0 < PointHistory.points h) example_db example_earned
   \<and> get_db (get_point_history 1 (Some 5) (Some ''used'')) example_db
     = (Inr example_used, example_db)
   \<and> listing 1 (\<lambda>h. PointHistory.points h < 0) example_db example_used
   \<and> sorted_wrt (\<lambda>a b. PointHistory.date b \<le> PointHistory.date a) example_earned"
proof -
  have l: "Some (5::int) = None \<or> (\<exists>n. Some (5::int) = Some n \<and> 0 \<le> n)" by simp
  note T = point_history_filter[OF l, of 1 example_db]
  have e: "get_db (get_point_history 1 (Some 5) (Some ''earned'')) example_db
     = (Inr example_earned, example_db)"
    and u: "get_db (get_point_history 1 (Some 5) (Some ''used'')) example_db
     = (Inr example_used, example_db)"
    by (simp_all add: history_defs session_defs example_db_def)
  have same: "limited (Some 5) full = full"
    if "listing 1 p example_db full" for p full
  proof -
    from that have "mset full
        = mset (filter (\<lambda>h. PointHistory.user_id h = 1 \<and> p h) (point_history example_db))"
      by (simp only: listing_def)
    then have "size (mset full)
        = size (mset (filter (\<lambda>h. PointHistory.user_id h = 1 \<and> p h) (point_history example_db)))"
      by (rule arg_cong)
    then have "length full
        = length (filter (\<lambda>h. PointHistory.user_id h = 1 \<and> p h) (point_history example_db))"
      by (simp only: size_mset)
    also have "\<dots> \<le> length (point_history example_db)" by (rule length_filter_le)
    also have "\<dots> = 4" by (simp add: example_db_def)
    finally show ?thesis by (simp add: limited_def)
  qed
  from T obtain fe where le: "listing 1 (\<lambda>h. 0 < PointHistory.points h) example_db fe"
    and re: "get_db (get_point_history 1 (Some 5) (Some ''earned'')) example_db
              = (Inr (limited (Some 5) fe), example_db)"
    by blast
  from re e have "limited (Some 5) fe = example_earned" by simp
  with same[OF le] have "fe = example_earned" by simp
  with le have E: "listing 1 (\<lambda>h. 0 < PointHistory.points h) example_db example_earned"
    by simp
  from T obtain fu where lu: "listing 1 (\<lambda>h. PointHistory.points h < 0) example_db fu"
    and ru: "get_db (get_point_history 1 (Some 5) (Some ''used'')) example_db
              = (Inr (limited (Some 5) fu), example_db)"
    by blast
  from ru u have "limited (Some 5) fu = example_used" by simp
  with same[OF lu] have "fu = example_used" by simp
  with lu have U: "listing 1 (\<lambda>h. PointHistory.points h < 0) example_db example_used"
    by simp
  from E have S: "sorted_wrt (\<lambda>a b. PointHistory.date b \<le> PointHistory.date a) example_earned"
    by (simp only: listing_def)
  from e u E U S show ?thesis by (intro conjI)
qed

text \<open>
  Claim C9. A request without the \<^verbatim>\<open>limit\<close> parameter runs the handler with limit 5. A
  positive limit \<open>n\<close> answers with the first \<open>n\<close> rows of the answer without a limit,
  which is ordered by decreasing date: \<open>min n\<close> (number of rows) rows, each at least as
  recent as every row left out. A limit of \<^verbatim>\<open>None\<close> or 0 is no limit: the whole answer.
\<close>

theorem point_history_limit:
  fixes uid :: int and d :: database and ft :: "string option"
  shows "get_point_history_route uid None ft d = get_db (get_point_history uid (Some 5) ft) d
       \<and> (\<forall>l. get_point_history_route uid (Some l) ft d = get_db (get_point_history uid l ft) d)
       \<and> (\<exists>full.
             get_db (get_point_history uid None ft) d = (Inr full, d)
           \<and> get_db (get_point_history uid (Some 0) ft) d = (Inr full, d)
           \<and> sorted_wrt (\<lambda>a b. PointHistory.date b \<le> PointHistory.date a) full
           \<and> (\<forall>n. 0 < n \<longrightarrow>
                 get_db (get_point_history uid (Some n) ft) d = (Inr (take (nat n) full), d)
               \<and> length (take (nat n) full) = min (nat n) (length full)
               \<and> (\<forall>a\<in>set (take (nat n) full). \<forall>b\<in>set (drop (nat n) full).
                     PointHistory.date b \<le> PointHistory.date a)))"
proof -
  let ?full = "order_by_desc_date
            (filter (\<lambda>h. PointHistory.user_id h = uid
                        \<and> (ft = Some ''earned'' \<longrightarrow> 0 < PointHistory.points h)
                        \<and> (ft \<noteq> Some ''earned'' \<and> ft = Some ''used'' \<longrightarrow> PointHistory.points h < 0))
               (point_history d))"
  have A: "get_point_history_route uid None ft d = get_db (get_point_history uid (Some 5) ft) d"
    by (simp add: get_point_history_route_def Query_def)
  have B: "\<forall>l. get_point_history_route uid (Some l) ft d = get_db (get_point_history uid l ft) d"
    by (simp add: get_point_history_route_def Query_def)
  have C1: "get_db (get_point_history uid None ft) d = (Inr ?full, d)"
    and C2: "get_db (get_point_history uid (Some 0) ft) d = (Inr ?full, d)"
    by (simp_all add: get_point_history_run Let_def)
  have C3: "sorted_wrt (\<lambda>a b. PointHistory.date b \<le> PointHistory.date a) ?full"
    by (rule order_by_desc_date_sorted)
  have C4: "get_db (get_point_history uid (Some n) ft) d = (Inr (take (nat n) ?full), d)
               \<and> length (take (nat n) ?full) = min (nat n) (length ?full)
               \<and> (\<forall>a\<in>set (take (nat n) ?full). \<forall>b\<in>set (drop (nat n) ?full).
                     PointHistory.date b \<le> PointHistory.date a)"
    if "0 < n" for n
    using that sorted_wrt_take_drop[OF C3, of "nat n"]
    by (simp add: get_point_history_run Let_def min.commute)
  from C1 C2 C3 C4 have "\<exists>full.
             get_db (get_point_history uid None ft) d = (Inr full, d)
           \<and> get_db (get_point_history uid (Some 0) ft) d = (Inr full, d)
           \<and> sorted_wrt (\<lambda>a b. PointHistory.date b \<le> PointHistory.date a) full
           \<and> (\<forall>n. 0 < n \<longrightarrow>
                 get_db (get_point_history uid (Some n) ft) d = (Inr (take (nat n) full), d)
               \<and> length (take (nat n) full) = min (nat n) (length full)
               \<and> (\<forall>a\<in>set (take (nat n) full). \<forall>b\<in>set (drop (nat n) full).
                     PointHistory.date b \<le> PointHistory.date a))"
    by (intro exI[of _ ?full]) blast
  with A B show ?thesis by (intro conjI)
qed

theorem point_history_limit_witness:
  "get_point_history_route 1 None None example_history
     = (Inr (map example_entry [3, 6, 9, 1, 4]), example_history)
   \<and> map PointHistory.date (map example_entry [3, 6, 9, 1, 4]) = [10, 9, 8, 7, 6]
   \<and> get_db (get_point_history 1 None None) example_history
     = (Inr (map example_entry [3, 6, 9, 1, 4, 7, 10, 2, 5, 8]), example_history)
   \<and> get_db (get_point_history 1 (Some 0) None) example_history
     = (Inr (map example_entry [3, 6, 9, 1, 4, 7, 10, 2, 5, 8]), example_history)"
proof -
  have full: "get_db (get_point_history 1 None None) example_history
     = (Inr (map example_entry [3, 6, 9, 1, 4, 7, 10, 2, 5, 8]), example_history)"
    by (simp add: history_defs session_defs example_history_def example_entry_def)
  have five: "(0::int) < 5" by simp
  from point_history_limit[of 1 None example_history] full five
  have "get_point_history_route 1 None None example_history
     = (Inr (take (nat 5) (map example_entry [3, 6, 9, 1, 4, 7, 10, 2, 5, 8])), example_history)"
    and "get_db (get_point_history 1 (Some 0) None) example_history
     = (Inr (map example_entry [3, 6, 9, 1, 4, 7, 10, 2, 5, 8]), example_history)"
    by auto
  with full show ?thesis by (simp add: example_entry_def)
qed

end
